theory Spec2Isabelle
  imports Complex_Main "HOL-Library.Word" "HOL-Library.Monad_Syntax" "HOL-Library.Log_Nat"
begin

section \<open>Numeric model\<close>

text \<open>
  The controller computes with C++ \<open>float\<close> and \<open>double\<close> values and with the fixed-width
  integers \<open>uint8_t\<close>, \<open>uint16_t\<close>, \<open>int16_t\<close> and \<open>uint32_t\<close>.

  Integers are words of the declared width, so every wrap-around of the source is a
  wrap-around of the model.

  A floating-point value is either a finite number, one of the two infinities, or NaN.
  Every arithmetic operation computes the exact result and rounds it to the format of
  the operation, binary32 for \<open>float\<close> and binary64 for \<open>double\<close>, to the nearest
  representable number, ties to the even significand, with gradual underflow and with
  overflow to an infinity (IEEE 754). A division by zero yields an infinity or NaN, and
  every ordered comparison with NaN is false. There is one zero: the sign of a zero is
  not kept.
\<close>

datatype cfloat = Fin real | PInf | NInf | NaN

datatype fmt = B32 | B64

text \<open>Significand bits, and the least and greatest exponent of a normal number.\<close>

fun prec :: "fmt \<Rightarrow> int" where
  "prec B32 = 24"
| "prec B64 = 53"

fun emin :: "fmt \<Rightarrow> int" where
  "emin B32 = - 126"
| "emin B64 = - 1022"

fun emax :: "fmt \<Rightarrow> int" where
  "emax B32 = 127"
| "emax B64 = 1023"

definition pow2 :: "int \<Rightarrow> real" where
  "pow2 q = (if 0 \<le> q then 2 ^ nat q else 1 / 2 ^ nat (- q))"

text \<open>The binary exponent of a positive number: \<open>pow2 e \<le> x < pow2 (e + 1)\<close>.\<close>

definition fexp2 :: "real \<Rightarrow> int" where
  "fexp2 x = (if 1 \<le> x then bitlen \<lfloor>x\<rfloor> - 1 else - bitlen (\<lceil>1 / x\<rceil> - 1))"

text \<open>The nearest integer, a tie going to the even one.\<close>

definition rhe :: "real \<Rightarrow> int" where
  "rhe y =
     (let f = \<lfloor>y\<rfloor>; d = y - of_int f in
      if d < 1 / 2 then f else if 1 / 2 < d then f + 1 else if even f then f else f + 1)"

text \<open>
  Rounding to a format: the number is scaled by the unit in its last place, rounded to
  an integer and scaled back; a result of magnitude \<open>2 ^ (emax + 1)\<close> or more is an
  infinity.
\<close>

definition round_fp :: "fmt \<Rightarrow> real \<Rightarrow> cfloat" where
  "round_fp f x =
     (if x = 0 then Fin 0
      else
        let q = max (fexp2 \<bar>x\<bar>) (emin f) - (prec f - 1);
            y = of_int (rhe (x / pow2 q)) * pow2 q
        in if pow2 (emax f + 1) \<le> \<bar>y\<bar> then (if 0 < x then PInf else NInf) else Fin y)"

fun fneg :: "cfloat \<Rightarrow> cfloat" where
  "fneg (Fin x) = Fin (- x)"
| "fneg PInf = NInf"
| "fneg NInf = PInf"
| "fneg NaN = NaN"

fun fabs :: "cfloat \<Rightarrow> cfloat" where
  "fabs (Fin x) = Fin \<bar>x\<bar>"
| "fabs PInf = PInf"
| "fabs NInf = PInf"
| "fabs NaN = NaN"

fun fadd :: "fmt \<Rightarrow> cfloat \<Rightarrow> cfloat \<Rightarrow> cfloat" where
  "fadd f (Fin x) (Fin y) = round_fp f (x + y)"
| "fadd f NaN _ = NaN"
| "fadd f _ NaN = NaN"
| "fadd f PInf NInf = NaN"
| "fadd f NInf PInf = NaN"
| "fadd f PInf _ = PInf"
| "fadd f _ PInf = PInf"
| "fadd f NInf _ = NInf"
| "fadd f _ NInf = NInf"

definition fsub :: "fmt \<Rightarrow> cfloat \<Rightarrow> cfloat \<Rightarrow> cfloat" where
  "fsub f a b = fadd f a (fneg b)"

text \<open>The sign of an infinite product or quotient: \<open>True\<close> is positive.\<close>

fun fsign :: "cfloat \<Rightarrow> bool option" where
  "fsign (Fin x) = (if x = 0 then None else Some (0 < x))"
| "fsign PInf = Some True"
| "fsign NInf = Some False"
| "fsign NaN = None"

definition finf :: "bool \<Rightarrow> cfloat" where
  "finf positive = (if positive then PInf else NInf)"

fun fmul :: "fmt \<Rightarrow> cfloat \<Rightarrow> cfloat \<Rightarrow> cfloat" where
  "fmul f (Fin x) (Fin y) = round_fp f (x * y)"
| "fmul f NaN _ = NaN"
| "fmul f _ NaN = NaN"
| "fmul f a b =
     (case (fsign a, fsign b) of
        (Some s, Some t) \<Rightarrow> finf (s = t)
      | _ \<Rightarrow> NaN)"

fun fdiv :: "fmt \<Rightarrow> cfloat \<Rightarrow> cfloat \<Rightarrow> cfloat" where
  "fdiv f (Fin x) (Fin y) =
     (if y \<noteq> 0 then round_fp f (x / y)
      else if 0 < x then PInf else if x < 0 then NInf else NaN)"
| "fdiv f NaN _ = NaN"
| "fdiv f _ NaN = NaN"
| "fdiv f (Fin x) _ = Fin 0"
| "fdiv f a (Fin y) = (case fsign a of Some s \<Rightarrow> finf (s = (0 \<le> y)) | None \<Rightarrow> NaN)"
| "fdiv f _ _ = NaN"

fun fless :: "cfloat \<Rightarrow> cfloat \<Rightarrow> bool" where
  "fless (Fin x) (Fin y) = (x < y)"
| "fless NaN _ = False"
| "fless _ NaN = False"
| "fless NInf NInf = False"
| "fless NInf _ = True"
| "fless _ NInf = False"
| "fless PInf _ = False"
| "fless _ PInf = True"

fun fle :: "cfloat \<Rightarrow> cfloat \<Rightarrow> bool" where
  "fle (Fin x) (Fin y) = (x \<le> y)"
| "fle NaN _ = False"
| "fle _ NaN = False"
| "fle NInf _ = True"
| "fle _ PInf = True"
| "fle _ _ = False"

definition fgt :: "cfloat \<Rightarrow> cfloat \<Rightarrow> bool" where
  "fgt a b = fless b a"

definition fge :: "cfloat \<Rightarrow> cfloat \<Rightarrow> bool" where
  "fge a b = fle b a"

text \<open>
  A decimal literal of the source is a \<open>double\<close>; a \<open>float\<close> initialised from it is
  the \<open>double\<close> rounded again.
\<close>

definition dlit :: "real \<Rightarrow> cfloat" where
  "dlit r = round_fp B64 r"

fun d2f :: "cfloat \<Rightarrow> cfloat" where
  "d2f (Fin x) = round_fp B32 x"
| "d2f x = x"

text \<open>
  Integer-to-float conversions. The integers converted are 8-bit and 16-bit values and
  their differences, which both formats hold exactly.
\<close>

definition u2f :: "'a::len word \<Rightarrow> cfloat" where
  "u2f w = Fin (real (unat w))"

definition i2f :: "int \<Rightarrow> cfloat" where
  "i2f i = Fin (real_of_int i)"

text \<open>
  Float to \<open>uint16_t\<close>: C++ truncates towards zero and leaves the conversion undefined
  when the truncated value is not representable. What the target does there is the
  parameter \<open>oor\<close>.
\<close>

fun f2u16 :: "(cfloat \<Rightarrow> 16 word) \<Rightarrow> cfloat \<Rightarrow> 16 word" where
  "f2u16 oor (Fin r) =
     (if - 1 < r \<and> r < 65536 then (if 0 \<le> r then word_of_int \<lfloor>r\<rfloor> else 0)
      else oor (Fin r))"
| "f2u16 oor x = oor x"

section \<open>Azimuth distance\<close>

text \<open>
  \<open>Gimbal::azDist\<close>: path length from \<open>from\<close> to \<open>to\<close> going the shortest direction,
  in \<open>float\<close> arithmetic.
\<close>

definition azDist :: "cfloat \<Rightarrow> cfloat \<Rightarrow> cfloat" where
  "azDist from to =
     (let d = fsub B32 to from in
      if fless d (Fin (- 180)) then fadd B32 d (Fin 360)
      else if fgt d (Fin 180) then fsub B32 d (Fin 360)
      else d)"

section \<open>Data model\<close>

text \<open>\<open>MotorInfo\<close> of \<open>Gimbal.h\<close>; the limits \<open>min\<close> and \<open>max\<close> carry their unit as a suffix.\<close>

record MotorInfo =
  az_scale :: cfloat
  el_scale :: cfloat
  min_us :: "16 word"
  max_us :: "16 word"
  pos :: "16 word"
  del_pos :: "16 word"
  atmin :: bool
  atmax :: bool
  servo_num :: "8 word"

text \<open>
  The \<open>NV\<close> class: the values mirrored in RAM. The fields \<open>magic\<close> and \<open>init_step\<close> are
  prefixed, since the controller has a field \<open>init_step\<close> of its own.
\<close>

record NV =
  nv_magic :: "32 word"
  mot0min :: "16 word"
  mot0max :: "16 word"
  mot1min :: "16 word"
  mot1max :: "16 word"
  BNO055cal :: "8 word list"
  mag_decl :: cfloat
  m0_azscale :: cfloat
  m0_elscale :: cfloat
  m1_azscale :: cfloat
  m1_elscale :: cfloat
  best_az_motor :: "8 word"
  nv_init_step :: "8 word"

text \<open>
  The controller's fields, followed by the state of its collaborators that it changes:
  the RAM mirror \<open>nv\<close> and the EEPROM contents behind it, the message shown on the web
  page, the \<open>setPWM\<close> calls made so far (channel, on, off), and the number of sensor
  refreshes made so far.
\<close>

record Gimbal =
  gimbal_found :: bool
  motor0 :: MotorInfo
  motor1 :: MotorInfo
  init_step :: "8 word"
  best_azmotor :: "8 word"
  last_update :: "32 word"
  prevfast_az :: cfloat
  prevfast_el :: cfloat
  prevstop_az :: cfloat
  prevstop_el :: cfloat
  isCalibrating :: bool
  nv :: NV
  eeprom :: NV
  user_message :: string
  pwm_out :: "(8 word \<times> 16 word \<times> 16 word) list"
  sensor_reads :: nat

definition NMOTORS :: "8 word" where "NMOTORS = 2"
definition UPD_PERIOD :: "16 word" where "UPD_PERIOD = 500"
definition MAX_SETTLE :: cfloat where "MAX_SETTLE = d2f (dlit 0.5)"
definition N_INIT_STEPS :: "8 word" where "N_INIT_STEPS = 4"
definition CAL_FRAC :: cfloat where "CAL_FRAC = d2f (dlit 0.333)"
definition SERVO_FREQ :: "8 word" where "SERVO_FREQ = 50"
definition US_PER_BIT :: cfloat where
  "US_PER_BIT = d2f (fdiv B64 (fdiv B64 (dlit 1000000) (u2f SERVO_FREQ)) (Fin 4096))"
definition G_HOME_AZ :: cfloat where "G_HOME_AZ = d2f (dlit 0)"
definition G_HOME_EL :: cfloat where "G_HOME_EL = d2f (dlit 45)"
definition MAGIC :: "32 word" where "MAGIC = 0x5a5aa5a5"

text \<open>The two constants local to \<open>reCal\<close>, both \<open>const float\<close>.\<close>

definition MIN_ANGLE :: cfloat where "MIN_ANGLE = d2f (dlit 30)"
definition MAX_CHANGE :: cfloat where "MAX_CHANGE = d2f (dlit 0.1)"

text \<open>
  \<open>motor[i]\<close>: the array has two elements, and an access with another index is
  undefined behaviour, which is the value \<open>None\<close>.
\<close>

definition motor :: "Gimbal \<Rightarrow> 8 word \<Rightarrow> MotorInfo option" where
  "motor g i = (if i = 0 then Some (motor0 g) else if i = 1 then Some (motor1 g) else None)"

definition motor_update :: "8 word \<Rightarrow> MotorInfo \<Rightarrow> Gimbal \<Rightarrow> Gimbal" where
  "motor_update i m g = (if i = 0 then g\<lparr>motor0 := m\<rparr> else g\<lparr>motor1 := m\<rparr>)"

text \<open>The C++ \<open>!\<close> on an index: 1 for 0, and 0 for everything else.\<close>

definition lnot :: "8 word \<Rightarrow> 8 word" where
  "lnot b = (if b = 0 then 1 else 0)"

text \<open>\<open>calibrated()\<close> of \<open>Gimbal.h\<close>.\<close>

definition calibrated :: "Gimbal \<Rightarrow> bool" where
  "calibrated g = (init_step g \<ge> N_INIT_STEPS)"

section \<open>Persistent store\<close>

definition nv_zero :: NV where
  "nv_zero = \<lparr>nv_magic = 0, mot0min = 0, mot0max = 0, mot1min = 0, mot1max = 0,
     BNO055cal = replicate 22 0, mag_decl = Fin 0,
     m0_azscale = Fin 0, m0_elscale = Fin 0, m1_azscale = Fin 0, m1_elscale = Fin 0,
     best_az_motor = 0, nv_init_step = 0\<rparr>"

text \<open>
  \<open>NV::get\<close>: read the EEPROM into the mirror; a record without the magic number is
  erased, marked and written back.
\<close>

definition nv_get :: "Gimbal \<Rightarrow> Gimbal" where
  "nv_get g =
     (let r = eeprom g in
      if nv_magic r \<noteq> MAGIC
      then (let z = nv_zero\<lparr>nv_magic := MAGIC\<rparr> in g\<lparr>nv := z, eeprom := z\<rparr>)
      else g\<lparr>nv := r\<rparr>)"

text \<open>\<open>NV::put\<close>: write the mirror to the EEPROM.\<close>

definition nv_put :: "Gimbal \<Rightarrow> Gimbal" where
  "nv_put g = g\<lparr>eeprom := nv g\<rparr>"

section \<open>Motor command\<close>

text \<open>
  The third argument of \<open>setPWM\<close>, \<open>pos / US_PER_BIT\<close> converted to \<open>uint16_t\<close>. The
  quotient of a 16-bit position is finite and below 13422, so the conversion is always
  defined and its out-of-range case is not reached.
\<close>

definition pwm_ticks :: "16 word \<Rightarrow> 16 word" where
  "pwm_ticks p = f2u16 (\<lambda>_. 0) (fdiv B32 (u2f p) US_PER_BIT)"

text \<open>
  \<open>Gimbal::setMotorPosition\<close>. The difference \<open>(int)newpos - (int)pos\<close> is stored in an
  \<open>int16_t\<close>, which keeps its low 16 bits: the subtraction of 16-bit words, read as a
  signed value by \<open>sint\<close>.
\<close>

definition setMotorPosition :: "8 word \<Rightarrow> 16 word \<Rightarrow> Gimbal \<Rightarrow> Gimbal" where
  "setMotorPosition motn newpos g =
     (if motn \<ge> NMOTORS \<or> \<not> gimbal_found g then g
      else
        let mip = (if motn = 0 then motor0 g else motor1 g);
            at_min = (newpos \<le> min_us mip);
            newpos1 = (if at_min then min_us mip else newpos);
            at_max = (newpos1 \<ge> max_us mip);
            newpos2 = (if at_max then max_us mip else newpos1);
            mip' = mip\<lparr>atmin := at_min, atmax := at_max,
                       del_pos := newpos2 - pos mip, pos := newpos2\<rparr>
        in (motor_update motn mip' g)
             \<lparr>pwm_out := pwm_out g @ [(servo_num mip', 0, pwm_ticks (pos mip'))]\<rparr>)"

section \<open>Calibration record\<close>

text \<open>\<open>Gimbal::saveCalibration\<close>.\<close>

definition saveCalibration :: "Gimbal \<Rightarrow> Gimbal" where
  "saveCalibration g =
     nv_put (g\<lparr>nv := (nv g)\<lparr>best_az_motor := best_azmotor g,
                               m0_azscale := az_scale (motor0 g),
                               m0_elscale := el_scale (motor0 g),
                               m1_azscale := az_scale (motor1 g),
                               m1_elscale := el_scale (motor1 g),
                               nv_init_step := init_step g\<rparr>\<rparr>)"

text \<open>
  \<open>Gimbal::installCalibration\<close>. The sanity check is written
  \<open>fabs(motor[best_azmotor].az_scale > 50)\<close>: the absolute value is taken of the
  comparison's result, so the test is the comparison itself. The check reads
  \<open>motor[best_azmotor]\<close> before it tests the index; an index above 1 reads past the
  array, and the value found there is the parameter \<open>stray\<close>. The test \<open>best_azmotor < 0\<close>
  is never true of a \<open>uint8_t\<close>.
\<close>

definition installCalibration :: "cfloat \<Rightarrow> Gimbal \<Rightarrow> Gimbal" where
  "installCalibration stray g0 =
     (let g1 = nv_get g0;
          g = g1\<lparr>init_step := nv_init_step (nv g1),
                  best_azmotor := best_az_motor (nv g1),
                  motor0 := (motor0 g1)\<lparr>az_scale := m0_azscale (nv g1),
                                         el_scale := m0_elscale (nv g1)\<rparr>,
                  motor1 := (motor1 g1)\<lparr>az_scale := m1_azscale (nv g1),
                                         el_scale := m1_elscale (nv g1)\<rparr>\<rparr>;
          azs = (case motor g (best_azmotor g) of Some m \<Rightarrow> az_scale m | None \<Rightarrow> stray);
          els = (case motor g (lnot (best_azmotor g)) of Some m \<Rightarrow> el_scale m | None \<Rightarrow> stray)
      in if fgt azs (Fin 50) \<or> fgt els (Fin 50)
            \<or> init_step g \<noteq> 4 \<or> best_azmotor g > 1
         then g\<lparr>init_step := 0\<rparr> else g)"

text \<open>\<open>Gimbal::resetInitStep\<close>.\<close>

definition resetInitStep :: "Gimbal \<Rightarrow> Gimbal" where
  "resetInitStep g = g\<lparr>init_step := 0\<rparr>"

section \<open>Recalibration\<close>

text \<open>
  \<open>Gimbal::reCal\<close>. \<open>azmip\<close> points to \<open>motor[best_azmotor]\<close> and is dereferenced in the
  first branch only; \<open>elmip\<close> points to \<open>motor[!best_azmotor]\<close>, which always exists.
\<close>

definition reCal :: "cfloat \<Rightarrow> cfloat \<Rightarrow> Gimbal \<Rightarrow> Gimbal option" where
  "reCal az_s el_s g = do {
     let az_move = azDist (prevstop_az g) az_s;
     g1 \<leftarrow> (if fge (fabs az_move) MIN_ANGLE then do {
              azmip \<leftarrow> motor g (best_azmotor g);
              let new_az_scale = fdiv B32 (i2f (sint (del_pos azmip))) az_move;
              Some (if fless (fabs (fdiv B32 (fsub B32 new_az_scale (az_scale azmip)) (az_scale azmip)))
                         MAX_CHANGE
                    then motor_update (best_azmotor g) (azmip\<lparr>az_scale := new_az_scale\<rparr>) g
                    else g)
            } else Some g);
     let el_move = fsub B32 el_s (prevstop_el g1);
     if fge (fabs el_move) MIN_ANGLE then do {
       elmip \<leftarrow> motor g1 (lnot (best_azmotor g1));
       let new_el_scale = fdiv B32 (i2f (sint (del_pos elmip))) el_move;
       Some (if fless (fabs (fdiv B32 (fsub B32 new_el_scale (el_scale elmip)) (el_scale elmip)))
                  MAX_CHANGE
             then motor_update (lnot (best_azmotor g1)) (elmip\<lparr>el_scale := new_el_scale\<rparr>) g1
             else g1)
     } else Some g1
   }"

section \<open>Seeking the target\<close>

text \<open>
  \<open>Gimbal::seekTarget\<close>. The errors are computed first, then \<open>reCal\<close> runs, then the
  azimuth motor is commanded from the fields \<open>azmip\<close> points to at that moment, then
  the elevation motor from the fields \<open>elmip\<close> points to.
\<close>

definition seekTarget ::
  "(cfloat \<Rightarrow> 16 word) \<Rightarrow> cfloat \<Rightarrow> cfloat \<Rightarrow> cfloat \<Rightarrow> cfloat \<Rightarrow> Gimbal \<Rightarrow> Gimbal option" where
  "seekTarget oor az_t el_t az_s el_s g = do {
     let az_err = azDist az_s az_t;
     let el_err = fsub B32 el_t el_s;
     g1 \<leftarrow> reCal az_s el_s g;
     azmip \<leftarrow> motor g1 (best_azmotor g1);
     let g2 =
       (if atmin azmip then
          setMotorPosition (best_azmotor g1)
            (f2u16 oor (fadd B64 (u2f (min_us azmip))
               (fmul B64 (dlit 0.9) (i2f (uint (max_us azmip) - uint (min_us azmip)))))) g1
        else if atmax azmip then
          setMotorPosition (best_azmotor g1)
            (f2u16 oor (fadd B64 (u2f (min_us azmip))
               (fmul B64 (dlit 0.1) (i2f (uint (max_us azmip) - uint (min_us azmip)))))) g1
        else
          setMotorPosition (best_azmotor g1)
            (f2u16 oor (fadd B32 (u2f (pos azmip)) (fmul B32 az_err (az_scale azmip)))) g1);
     elmip \<leftarrow> motor g2 (lnot (best_azmotor g2));
     Some (setMotorPosition (lnot (best_azmotor g2))
             (f2u16 oor (fadd B32 (u2f (pos elmip)) (fmul B32 el_err (el_scale elmip)))) g2)
   }"

section \<open>Calibration sequence\<close>

text \<open>
  \<open>Gimbal::calibrate\<close>. The ranges are \<open>uint16_t\<close> differences; \<open>switch (init_step++)\<close>
  selects on the old step and stores the incremented one. The \<open>delay\<close> calls pass time
  only.
\<close>

definition calibrate :: "(cfloat \<Rightarrow> 16 word) \<Rightarrow> cfloat \<Rightarrow> cfloat \<Rightarrow> Gimbal \<Rightarrow> Gimbal" where
  "calibrate oor az_s el_s g0 =
     (let range0 = max_us (motor0 g0) - min_us (motor0 g0);
          range1 = max_us (motor1 g0) - min_us (motor1 g0);
          step = init_step g0;
          g = g0\<lparr>user_message := ''Calibrating gimbal'', isCalibrating := True,
                  init_step := step + 1\<rparr>
      in
      if step = 0 then
        (let ga = setMotorPosition 0
                    (f2u16 oor (fadd B32 (u2f (min_us (motor0 g)))
                       (fdiv B32 (fmul B32 (u2f range0) (fsub B32 (i2f 1) CAL_FRAC)) (i2f 2)))) g
         in setMotorPosition 1
              (f2u16 oor (fadd B32 (u2f (min_us (motor1 ga)))
                 (fdiv B32 (fmul B32 (u2f range1) (fsub B32 (i2f 1) CAL_FRAC)) (i2f 2)))) ga)
      else if step = 1 then
        setMotorPosition 0
          (f2u16 oor (fadd B32 (u2f (pos (motor0 g))) (fmul B32 (u2f range0) CAL_FRAC))) g
      else if step = 2 then
        (let ga = g\<lparr>motor0 := (motor0 g)
                      \<lparr>az_scale := fdiv B32 (fmul B32 (u2f range0) CAL_FRAC) (azDist (prevstop_az g) az_s),
                       el_scale := fdiv B32 (fmul B32 (u2f range0) CAL_FRAC) (fsub B32 el_s (prevstop_el g))\<rparr>\<rparr>
         in setMotorPosition 1
              (f2u16 oor (fadd B32 (u2f (pos (motor1 ga))) (fmul B32 (u2f range1) CAL_FRAC))) ga)
      else if step = 3 then
        (let ga = g\<lparr>motor1 := (motor1 g)
                      \<lparr>az_scale := fdiv B32 (fmul B32 (u2f range1) CAL_FRAC) (azDist (prevstop_az g) az_s),
                       el_scale := fdiv B32 (fmul B32 (u2f range1) CAL_FRAC) (fsub B32 el_s (prevstop_el g))\<rparr>\<rparr>;
             gb = ga\<lparr>best_azmotor :=
                       (if fless (fabs (az_scale (motor0 ga))) (fabs (az_scale (motor1 ga)))
                        then 0 else 1)\<rparr>
         in (saveCalibration gb)\<lparr>isCalibrating := False\<rparr>)
      else g\<lparr>user_message := ''BUG! Bogus init_step''\<rparr>)"

section \<open>Control tick\<close>

text \<open>
  \<open>Gimbal::moveToAzEl\<close>. \<open>now\<close> is the value of \<open>millis()\<close>; \<open>az_sens\<close> and \<open>el_sens\<close> are what
  the sensor holds after \<open>readAzElT\<close>. The sum \<open>last_update + UPD_PERIOD\<close> is a
  \<open>uint32_t\<close> sum.
\<close>

definition moveToAzEl ::
  "(cfloat \<Rightarrow> 16 word) \<Rightarrow> 32 word \<Rightarrow> cfloat \<Rightarrow> cfloat \<Rightarrow> cfloat \<Rightarrow> cfloat \<Rightarrow> Gimbal
     \<Rightarrow> Gimbal option" where
  "moveToAzEl oor now az_sens el_sens az_t el_t g0 =
     (if now < last_update g0 + ucast UPD_PERIOD then Some g0
      else
        let g = g0\<lparr>last_update := now, sensor_reads := Suc (sensor_reads g0)\<rparr>;
            az_s = az_sens;
            el_s = el_sens
        in
        if fless az_s (Fin 0) \<or> fgt az_s (Fin 360) \<or> fless el_s (Fin 0) \<or> fgt el_s (Fin 90)
        then Some g
        else do {
          g1 \<leftarrow> (if fless (fabs (azDist (prevfast_az g) az_s)) MAX_SETTLE
                     \<and> fless (fabs (fsub B32 el_s (prevfast_el g))) MAX_SETTLE
                  then do {
                    ga \<leftarrow> (if calibrated g then seekTarget oor az_t el_t az_s el_s g
                           else Some (calibrate oor az_s el_s g));
                    Some (ga\<lparr>prevstop_az := az_s, prevstop_el := el_s\<rparr>)
                  } else Some g);
          Some (g1\<lparr>prevfast_az := az_s, prevfast_el := el_s\<rparr>)
        })"

section \<open>Operator overrides\<close>

text \<open>
  One call of \<open>moveToAzEl\<close> made by the \<open>G_Save\<close> handler meets one tick of the
  environment: the value of \<open>millis()\<close> and the sensor's azimuth and elevation.
\<close>

type_synonym tick = "32 word \<times> cfloat \<times> cfloat"

text \<open>
  The loop \<open>while (!calibrated()) { moveToAzEl(init_step * 5, init_step * 5); ... }\<close>
  of the \<open>G_Save\<close> handler. It runs as long as the gimbal is not calibrated; the list of
  ticks is its fuel, and \<open>None\<close> says that the ticks given did not suffice. The result
  carries the ticks that are left.
\<close>

fun save_loop :: "(cfloat \<Rightarrow> 16 word) \<Rightarrow> tick list \<Rightarrow> Gimbal \<Rightarrow> (Gimbal \<times> tick list) option" where
  "save_loop oor [] g = (if calibrated g then Some (g, []) else None)"
| "save_loop oor (t # ts) g =
     (if calibrated g then Some (g, t # ts)
      else
        case moveToAzEl oor (fst t) (fst (snd t)) (snd (snd t))
               (i2f (uint (init_step g) * 5)) (i2f (uint (init_step g) * 5)) g of
          None \<Rightarrow> None
        | Some g' \<Rightarrow> save_loop oor ts g')"

text \<open>
  \<open>Gimbal::overrideValue\<close>. \<open>v\<close> is the value of \<open>atoi(value)\<close>, which an assignment to a
  \<open>uint16_t\<close> reduces modulo \<open>2^16\<close>; \<open>sensor_connected\<close> is \<open>sensor->connected()\<close>. The
  result is \<open>None\<close> when \<open>G_Save\<close> needs more ticks than it was given or meets undefined
  behaviour.
\<close>

definition overrideValue ::
  "(cfloat \<Rightarrow> 16 word) \<Rightarrow> bool \<Rightarrow> tick list \<Rightarrow> string \<Rightarrow> int \<Rightarrow> Gimbal
     \<Rightarrow> (bool \<times> Gimbal) option" where
  "overrideValue oor sensor_connected ticks name v g =
     (let nog = ''No gimbal!'' in
      if name = ''G_Mot1Pos'' then
        Some (True, if gimbal_found g then setMotorPosition 0 (word_of_int v) g
                    else g\<lparr>user_message := nog\<rparr>)
      else if name = ''G_Mot1Min'' then
        Some (True,
          if gimbal_found g then
            (nv_put (g\<lparr>motor0 := (motor0 g)\<lparr>min_us := word_of_int v\<rparr>,
                       nv := (nv g)\<lparr>mot0min := word_of_int v\<rparr>\<rparr>))
              \<lparr>user_message := ''Servo 1 minimum saved in EEPROM+''\<rparr>
          else g\<lparr>user_message := nog\<rparr>)
      else if name = ''G_Mot1Max'' then
        Some (True,
          if gimbal_found g then
            (nv_put (g\<lparr>motor0 := (motor0 g)\<lparr>max_us := word_of_int v\<rparr>,
                       nv := (nv g)\<lparr>mot0max := word_of_int v\<rparr>\<rparr>))
              \<lparr>user_message := ''Servo 1 maximum saved in EEPROM+''\<rparr>
          else g\<lparr>user_message := nog\<rparr>)
      else if name = ''G_Mot2Pos'' then
        Some (True, if gimbal_found g then setMotorPosition 1 (word_of_int v) g
                    else g\<lparr>user_message := nog\<rparr>)
      else if name = ''G_Mot2Min'' then
        Some (True,
          if gimbal_found g then
            (nv_put (g\<lparr>motor1 := (motor1 g)\<lparr>min_us := word_of_int v\<rparr>,
                       nv := (nv g)\<lparr>mot1min := word_of_int v\<rparr>\<rparr>))
              \<lparr>user_message := ''Servo 2 minimum saved in EEPROM+''\<rparr>
          else g\<lparr>user_message := nog\<rparr>)
      else if name = ''G_Mot2Max'' then
        Some (True,
          if gimbal_found g then
            (nv_put (g\<lparr>motor1 := (motor1 g)\<lparr>max_us := word_of_int v\<rparr>,
                       nv := (nv g)\<lparr>mot1max := word_of_int v\<rparr>\<rparr>))
              \<lparr>user_message := ''Servo 2 maximum saved in EEPROM+''\<rparr>
          else g\<lparr>user_message := nog\<rparr>)
      else if name = ''G_Save'' then
        (if gimbal_found g then
           (if sensor_connected then
              (case save_loop oor ticks (resetInitStep g) of
                 Some (g1, t1 # t2 # _) \<Rightarrow> do {
                   g2 \<leftarrow> moveToAzEl oor (fst t1) (fst (snd t1)) (snd (snd t1))
                           G_HOME_AZ G_HOME_EL g1;
                   g3 \<leftarrow> moveToAzEl oor (fst t2) (fst (snd t2)) (snd (snd t2))
                           G_HOME_AZ G_HOME_EL g2;
                   Some (True, g3\<lparr>user_message := ''Gimbal calibrated+''\<rparr>)
                 }
               | _ \<Rightarrow> None)
            else Some (True, g\<lparr>user_message := ''no Sensor!''\<rparr>))
         else Some (True, g\<lparr>user_message := nog\<rparr>))
      else Some (False, g))"

section \<open>Properties named by the specification\<close>

text \<open>A motor's last command lies within its limits.\<close>

definition pos_in_limits :: "MotorInfo \<Rightarrow> bool" where
  "pos_in_limits m = (min_us m \<le> pos m \<and> pos m \<le> max_us m)"

text \<open>
  The same of the motor with index \<open>i\<close>, and the names of the overrides that edit that
  motor's own limits.
\<close>

definition motor_in_limits :: "8 word \<Rightarrow> Gimbal \<Rightarrow> bool" where
  "motor_in_limits i g = (case motor g i of Some m \<Rightarrow> pos_in_limits m | None \<Rightarrow> True)"

definition limit_names :: "8 word \<Rightarrow> string set" where
  "limit_names i =
     (if i = 0 then {''G_Mot1Min'', ''G_Mot1Max''}
      else if i = 1 then {''G_Mot2Min'', ''G_Mot2Max''} else {})"

text \<open>
  The recalibration rule in the specification's words: given the motion \<open>move\<close> since the
  last stable reading, the motor's last pulse change \<open>delta\<close> and the current scale
  \<open>cur\<close>, the candidate \<open>delta / move\<close> is adopted when the motion is 30 degrees or more
  in either direction and the candidate's difference from \<open>cur\<close>, as a fraction of
  \<open>cur\<close>, lies strictly between minus and plus one tenth; otherwise the scale stays. The
  quotients and the difference are those of \<open>float\<close> arithmetic, and the tenth is
  \<open>MAX_CHANGE\<close>, the \<open>float\<close> nearest to 0.1.
\<close>

definition gated_scale :: "cfloat \<Rightarrow> 16 word \<Rightarrow> cfloat \<Rightarrow> cfloat" where
  "gated_scale move delta cur =
     (let cand = fdiv B32 (i2f (sint delta)) move;
          frac = fdiv B32 (fsub B32 cand cur) cur;
          tenth = MAX_CHANGE
      in if (fle (Fin 30) move \<or> fle move (Fin (- 30)))
            \<and> fless (fneg tenth) frac \<and> fless frac tenth
         then cand else cur)"

text \<open>
  The magnitude of \<open>a\<close> is below the magnitude of \<open>b\<close>: of two numbers by their absolute
  values, a number below an infinity, and nothing else (no infinity is below anything,
  and NaN compares with nothing).
\<close>

fun mag_less :: "cfloat \<Rightarrow> cfloat \<Rightarrow> bool" where
  "mag_less (Fin x) (Fin y) = (\<bar>x\<bar> < \<bar>y\<bar>)"
| "mag_less NaN _ = False"
| "mag_less _ NaN = False"
| "mag_less (Fin x) _ = True"
| "mag_less _ _ = False"



section \<open>Concrete states\<close>

definition m_demo :: MotorInfo where
  "m_demo = \<lparr>az_scale = Fin 10, el_scale = Fin 10, min_us = 1000, max_us = 2000, pos = 1500,
     del_pos = 0, atmin = False, atmax = False, servo_num = 0\<rparr>"

text \<open>A calibrated gimbal at rest at azimuth 100, elevation 45.\<close>

definition g_demo :: Gimbal where
  "g_demo = \<lparr>gimbal_found = True, motor0 = m_demo, motor1 = m_demo\<lparr>servo_num := 1\<rparr>,
     init_step = 4, best_azmotor = 0, last_update = 0,
     prevfast_az = Fin 100, prevfast_el = Fin 45, prevstop_az = Fin 100, prevstop_el = Fin 45,
     isCalibrating = False, nv = nv_zero\<lparr>nv_magic := MAGIC\<rparr>,
     eeprom = nv_zero\<lparr>nv_magic := MAGIC\<rparr>, user_message = [],
     pwm_out = [], sensor_reads = 0\<rparr>"

text \<open>A conversion for the out-of-range case that yields 0.\<close>

definition oor_demo :: "cfloat \<Rightarrow> 16 word" where
  "oor_demo x = 0"

text \<open>The same gimbal with motor 0 pinned: both limits are 1500.\<close>

definition g_pinned :: Gimbal where
  "g_pinned = g_demo\<lparr>motor0 := m_demo\<lparr>min_us := 1500, max_us := 1500\<rparr>\<rparr>"

text \<open>The same gimbal with the widest limits on motor 0, which rests at 0.\<close>

definition g_wide :: Gimbal where
  "g_wide = g_demo\<lparr>motor0 := m_demo\<lparr>min_us := 0, max_us := 65535, pos := 0\<rparr>\<rparr>"

text \<open>
  A stored calibration record whose designated azimuth scale is \<open>-60\<close>, and the
  controller as its constructor leaves it before the record is installed.
\<close>

definition nv_neg :: NV where
  "nv_neg = \<lparr>nv_magic = MAGIC, mot0min = 1000, mot0max = 2000, mot1min = 1000, mot1max = 2000,
     BNO055cal = replicate 22 0, mag_decl = Fin 13.23,
     m0_azscale = Fin (- 60), m0_elscale = Fin 90, m1_azscale = Fin 80, m1_elscale = Fin 9,
     best_az_motor = 0, nv_init_step = 4\<rparr>"

definition g_boot :: Gimbal where
  "g_boot = \<lparr>gimbal_found = True,
     motor0 = \<lparr>az_scale = Fin 0, el_scale = Fin 0, min_us = 1000, max_us = 2000, pos = 0,
                del_pos = 0, atmin = False, atmax = False, servo_num = 0\<rparr>,
     motor1 = \<lparr>az_scale = Fin 0, el_scale = Fin 0, min_us = 1000, max_us = 2000, pos = 0,
                del_pos = 0, atmin = False, atmax = False, servo_num = 1\<rparr>,
     init_step = 0, best_azmotor = 0, last_update = 0,
     prevfast_az = Fin (- 1000), prevfast_el = Fin (- 1000),
     prevstop_az = Fin (- 1000), prevstop_el = Fin (- 1000),
     isCalibrating = False, nv = nv_neg, eeprom = nv_neg, user_message = [],
     pwm_out = [], sensor_reads = 0\<rparr>"

text \<open>The controller of \<open>g_boot\<close> after its first command, 1500 to motor 0.\<close>

definition g_one :: Gimbal where
  "g_one = setMotorPosition 0 1500 g_boot"

text \<open>
  The calibrated gimbal at rest, last updated 700 ms before \<open>millis()\<close> returns to 0
  (after 49.7 days of running).
\<close>

definition g_wrap :: Gimbal where
  "g_wrap = g_demo\<lparr>last_update := 4294966596\<rparr>"


text \<open>
  The gimbal at rest at azimuth 135, elevation 45, whose azimuth motor was last moved by
  \<open>-357\<close> microseconds and whose elevation motor by 204.
\<close>

definition g_moved :: Gimbal where
  "g_moved = g_demo\<lparr>motor0 := m_demo\<lparr>del_pos := - 357\<rparr>,
                     motor1 := m_demo\<lparr>servo_num := 1, del_pos := 204\<rparr>,
                     prevstop_az := Fin 135\<rparr>"


text \<open>
  An uncalibrated gimbal after three calibration steps, during which motor 0 turned the
  azimuth from 100 to 140 degrees and the elevation from 20 to 22 degrees.
\<close>

definition g_cal3 :: Gimbal where
  "g_cal3 =
     (calibrate oor_demo (Fin 140) (Fin 22)
       ((calibrate oor_demo (Fin 100) (Fin 20)
         ((calibrate oor_demo (Fin 100) (Fin 20) g_boot)
            \<lparr>prevstop_az := Fin 100, prevstop_el := Fin 20\<rparr>))
          \<lparr>prevstop_az := Fin 100, prevstop_el := Fin 20\<rparr>))
       \<lparr>prevstop_az := Fin 140, prevstop_el := Fin 22\<rparr>"

section \<open>Rounding: results\<close>

text \<open>Rounding to the nearest integer does not cross an integer.\<close>

lemma rhe_le: "y \<le> of_int n \<Longrightarrow> rhe y \<le> n"
  unfolding rhe_def Let_def
  by (auto simp add: floor_le_iff)

lemma rhe_ge: "of_int n \<le> y \<Longrightarrow> n \<le> rhe y"
proof -
  assume "of_int n \<le> y"
  then have "n \<le> \<lfloor>y\<rfloor>" by (simp add: le_floor_iff)
  then show ?thesis unfolding rhe_def Let_def by auto
qed

lemma pow2_pos: "0 < pow2 q"
  by (simp add: pow2_def)

lemma fexp2_le_23:
  assumes "0 < x" and "x \<le> 2 ^ 23"
  shows "fexp2 x \<le> 23"
proof (cases "1 \<le> x")
  case True
  have "\<lfloor>x\<rfloor> \<le> 2 ^ 23" using assms(2) by (simp add: floor_le_iff) 
  then have "\<lfloor>x\<rfloor> < 2 ^ nat 24" by simp
  then have "bitlen \<lfloor>x\<rfloor> \<le> 24"
    by (simp add: bitlen_le_iff_power)
  with True show ?thesis by (simp add: fexp2_def)
next
  case False
  have "0 \<le> bitlen (\<lceil>1 / x\<rceil> - 1)" by (rule bitlen_nonneg)
  with False show ?thesis by (simp add: fexp2_def)
qed

text \<open>
  Rounding to \<open>float\<close> does not cross an integer of magnitude up to \<open>2 ^ 23\<close>, and
  keeps such an integer.
\<close>

lemma round_fp_between:
  assumes "of_int lo \<le> x" and "x \<le> of_int hi"
    and "\<bar>lo\<bar> \<le> 2 ^ 23" and "\<bar>hi\<bar> \<le> 2 ^ 23"
  shows "\<exists>y. round_fp B32 x = Fin y \<and> of_int lo \<le> y \<and> y \<le> of_int hi"
proof (cases "x = 0")
  case True
  with assms show ?thesis by (simp add: round_fp_def)
next
  case False
  define q where "q = max (fexp2 \<bar>x\<bar>) (emin B32) - (prec B32 - 1)"
  define k where "k = nat (- q)"
  define y where "y = of_int (rhe (x / pow2 q)) * pow2 q"
  have ax: "\<bar>x\<bar> \<le> 2 ^ 23"
  proof -
    have "real_of_int lo \<ge> - (2 ^ 23)" "real_of_int hi \<le> 2 ^ 23"
      using assms(3,4) by (simp_all add: abs_le_iff of_int_le_iff [symmetric] ) 
    with assms(1,2) show ?thesis by (simp add: abs_le_iff)
  qed
  have "fexp2 \<bar>x\<bar> \<le> 23" using False ax by (intro fexp2_le_23) simp_all
  then have q0: "q \<le> 0" by (simp add: q_def)
  then have p: "pow2 q = 1 / 2 ^ k"
    by (cases "q = 0") (simp_all add: pow2_def k_def)
  have sc: "x / pow2 q = x * 2 ^ k" by (simp add: p)
  have "x * 2 ^ k \<le> of_int (hi * 2 ^ k)" using assms(2) by simp
  then have "rhe (x / pow2 q) \<le> hi * 2 ^ k" unfolding sc by (rule rhe_le)
  then have "real_of_int (rhe (x / pow2 q)) \<le> of_int hi * 2 ^ k"
    by (metis of_int_le_iff of_int_mult of_int_numeral of_int_power)
  then have yh: "y \<le> of_int hi" by (simp add: y_def p field_simps)
  have "of_int (lo * 2 ^ k) \<le> x * 2 ^ k" using assms(1) by simp
  then have "lo * 2 ^ k \<le> rhe (x / pow2 q)" unfolding sc by (rule rhe_ge)
  then have "of_int lo * 2 ^ k \<le> real_of_int (rhe (x / pow2 q))"
    by (metis of_int_le_iff of_int_mult of_int_numeral of_int_power)
  then have yl: "of_int lo \<le> y" by (simp add: y_def p field_simps)
  have "real_of_int lo \<ge> - (2 ^ 23)" "real_of_int hi \<le> 2 ^ 23"
    using assms(3,4) by (simp_all add: abs_le_iff of_int_le_iff [symmetric])
  with yl yh have "\<bar>y\<bar> \<le> 2 ^ 23" by (simp add: abs_le_iff)
  also have "\<dots> < pow2 (emax B32 + 1)" by (simp add: pow2_def)
  finally have "\<not> pow2 (emax B32 + 1) \<le> \<bar>y\<bar>" by simp
  moreover have "round_fp B32 x =
      (if pow2 (emax B32 + 1) \<le> \<bar>y\<bar> then (if 0 < x then PInf else NInf) else Fin y)"
    by (simp only: round_fp_def Let_def y_def q_def False if_False)
  ultimately have "round_fp B32 x = Fin y" by (simp only: if_False)
  with yl yh show ?thesis by blast
qed

lemma round_fp_int:
  assumes "\<bar>n\<bar> \<le> 2 ^ 23"
  shows "round_fp B32 (of_int n) = Fin (of_int n)"
  using round_fp_between [of n "of_int n" n] assms by auto

text \<open>Evaluating the rounding at a given number, and the constants of the source.\<close>

lemmas fp_eval = round_fp_def fexp2_def pow2_def rhe_def Let_def bitlen_def compute_floorlog
  dlit_def

lemma float_constants:
  "CAL_FRAC = Fin (5586813 / 16777216)"
  "MAX_SETTLE = Fin (1 / 2)"
  "US_PER_BIT = Fin (625 / 128)"
  "G_HOME_AZ = Fin 0"
  "G_HOME_EL = Fin 45"
  "MIN_ANGLE = Fin 30"
  "MAX_CHANGE = Fin (13421773 / 134217728)"
  "dlit 0.9 = Fin (8106479329266893 / 9007199254740992)"
  "dlit 0.1 = Fin (3602879701896397 / 36028797018963968)"
  by (simp_all add: CAL_FRAC_def MAX_SETTLE_def US_PER_BIT_def G_HOME_AZ_def G_HOME_EL_def
      MIN_ANGLE_def MAX_CHANGE_def SERVO_FREQ_def u2f_def fp_eval)

text \<open>
  Rules to evaluate the model at given numbers: integers are kept, and the pulse
  positions met below have these tick counts.
\<close>

lemma round_fp_zero [simp]: "round_fp f 0 = Fin 0"
  by (simp add: round_fp_def)

lemma round_fp_numeral [simp]:
  "(numeral k :: int) \<le> 2 ^ 23 \<Longrightarrow> round_fp B32 (numeral k) = Fin (numeral k)"
  "(numeral k :: int) \<le> 2 ^ 23 \<Longrightarrow> round_fp B32 (- numeral k) = Fin (- numeral k)"
  "round_fp B32 1 = Fin 1"
  "round_fp B32 (- 1) = Fin (- 1)"
  using round_fp_int [of "numeral k"] round_fp_int [of "- numeral k"] round_fp_int [of 1]
    round_fp_int [of "- 1"]
  by simp_all

lemma pwm_ticks_eval:
  "pwm_ticks 1600 = 327" "pwm_ticks 1550 = 317" "pwm_ticks 1700 = 348"
  "pwm_ticks 1100 = 225" "pwm_ticks 2000 = 409" "pwm_ticks 1000 = 204"
  by (simp_all add: pwm_ticks_def float_constants u2f_def fp_eval)

section \<open>Azimuth distance: results\<close>

lemma azDist_range_aux:
  assumes "0 \<le> a" and "a < 360" and "0 \<le> b" and "b < 360"
  shows "\<exists>d. azDist (Fin a) (Fin b) = Fin d \<and> - 180 \<le> d \<and> d \<le> 180"
proof -
  from round_fp_between [of "- 360" "b - a" 360] assms obtain y where
    y: "round_fp B32 (b - a) = Fin y" "- 360 \<le> y" "y \<le> 360" by auto
  show ?thesis
  proof (cases "y < - 180")
    case True
    from round_fp_between [of 0 "y + 360" 180] y True obtain z where
      "round_fp B32 (y + 360) = Fin z" "0 \<le> z" "z \<le> 180" by auto
    with y True show ?thesis by (simp add: azDist_def fsub_def Let_def)
  next
    case False
    show ?thesis
    proof (cases "180 < y")
      case True
      from round_fp_between [of "- 180" "y - 360" 0] y True obtain z where
        "round_fp B32 (y - 360) = Fin z" "- 180 \<le> z" "z \<le> 0" by auto
      with y True False show ?thesis by (simp add: azDist_def fsub_def fgt_def Let_def)
    next
      case F2: False
      with y False show ?thesis by (simp add: azDist_def fsub_def fgt_def Let_def)
    qed
  qed
qed

lemma azDist_examples:
  "azDist (Fin 350) (Fin 10) = Fin 20"
  "azDist (Fin 10) (Fin 350) = Fin (- 20)"
  "azDist (Fin 0) (Fin 180) = Fin 180"
  "azDist (Fin 180) (Fin 0) = Fin (- 180)"
  by (simp_all add: azDist_def fsub_def fgt_def fp_eval)

text \<open>
  The subtraction is a \<open>float\<close> one. From 180 to \<open>2^-40\<close> the difference rounds to
  \<open>-180\<close>, and that is the distance, although the azimuths are not half a turn apart.
\<close>

lemma azDist_rounded_example:
  "azDist (Fin 180) (Fin (1 / 2 ^ 40)) = Fin (- 180)"
  by (simp add: azDist_def fsub_def fgt_def fp_eval)

text \<open>
  C2, as the code has it. For azimuths \<open>a\<close>, \<open>b\<close> in \<open>[0, 360)\<close> the distance
  \<open>azDist a b\<close> is a number in the closed interval \<open>[-180, 180]\<close>.
  \<open>azDist 350 10 = 20\<close>, \<open>azDist 10 350 = -20\<close> and \<open>azDist 0 180 = 180\<close>.
\<close>

theorem azDist_range:
  assumes "0 \<le> a" and "a < 360" and "0 \<le> b" and "b < 360"
  shows "fle (Fin (- 180)) (azDist (Fin a) (Fin b))
       \<and> fle (azDist (Fin a) (Fin b)) (Fin 180)
       \<and> azDist (Fin 350) (Fin 10) = Fin 20
       \<and> azDist (Fin 10) (Fin 350) = Fin (- 20)
       \<and> azDist (Fin 0) (Fin 180) = Fin 180"
proof -
  from azDist_range_aux [OF assms] obtain d where
    "azDist (Fin a) (Fin b) = Fin d" "- 180 \<le> d" "d \<le> 180" by blast
  then show ?thesis by (simp add: azDist_examples)
qed

theorem azDist_range_witness:
  "(0::real) \<le> 200 \<and> (200::real) < 360 \<and> (0::real) \<le> 20 \<and> (20::real) < 360
   \<and> fle (Fin (- 180)) (azDist (Fin 200) (Fin 20))
   \<and> fle (azDist (Fin 200) (Fin 20)) (Fin 180)"
  using azDist_range [of 200 20] by simp

text \<open>
  The half-open interval of C2 fails at \<open>azDist 180 0\<close>: the difference is exactly
  \<open>-180\<close>, which neither branch changes.
\<close>

theorem azDist_half_open_counterexample:
  "(0::real) \<le> 180 \<and> (180::real) < 360 \<and> (0::real) \<le> 0 \<and> (0::real) < 360
   \<and> azDist (Fin 180) (Fin 0) = Fin (- 180)
   \<and> \<not> fless (Fin (- 180)) (azDist (Fin 180) (Fin 0))"
  by (simp add: azDist_examples)

section \<open>Motor command: results\<close>

lemma w8_le_simps [simp]:
  "\<not> (2::8 word) \<le> 0" "\<not> (2::8 word) \<le> 1" "(1::8 word) \<noteq> 0" "(1::8 word) \<le> 1"
  by (simp_all add: word_le_nat_alt)

lemma motor_cases:
  "motor g i = Some m \<Longrightarrow> (i = 0 \<and> m = motor0 g) \<or> (i = 1 \<and> m = motor1 g)"
  by (auto simp add: motor_def split: if_splits)

text \<open>What a command does to the motor it addresses.\<close>

lemma setMotorPosition_motor:
  assumes "gimbal_found g" and "motor g motn = Some m"
  shows "motor (setMotorPosition motn newpos g) motn =
     Some (m\<lparr>atmin := newpos \<le> min_us m,
             atmax := max_us m \<le> (if newpos \<le> min_us m then min_us m else newpos),
             del_pos := (if max_us m \<le> (if newpos \<le> min_us m then min_us m else newpos)
                         then max_us m
                         else if newpos \<le> min_us m then min_us m else newpos) - pos m,
             pos := (if max_us m \<le> (if newpos \<le> min_us m then min_us m else newpos)
                     then max_us m
                     else if newpos \<le> min_us m then min_us m else newpos)\<rparr>)"
  using assms motor_cases [OF assms(2)]
  by (auto simp add: setMotorPosition_def NMOTORS_def motor_def motor_update_def Let_def)

text \<open>An \<open>int16_t\<close> holds the difference of two positions when it fits.\<close>

lemma sint_sub_exact:
  fixes a b :: "16 word"
  assumes "- 32768 \<le> uint a - uint b" and "uint a - uint b \<le> 32767"
  shows "sint (a - b) = uint a - uint b"
proof -
  have "a - b = word_of_int (uint a - uint b)" by simp
  then have "sint (a - b) = signed_take_bit 15 (uint a - uint b)"
    by (simp only: sint_sbintrunc') simp
  also have "\<dots> = uint a - uint b"
    using assms by (intro signed_take_bit_int_eq_self) simp_all
  finally show ?thesis .
qed

text \<open>
  C10. A command to a motor index of 2 or more returns the state as it was: both motor
  records, the list of \<open>setPWM\<close> calls and every other field are unchanged, and this
  is what a command does when the actuator hardware is absent.
\<close>

theorem setMotorPosition_noop:
  assumes "2 \<le> motn \<or> \<not> gimbal_found g"
  shows "setMotorPosition motn newpos g = g"
  using assms by (auto simp add: setMotorPosition_def NMOTORS_def)

theorem setMotorPosition_noop_witness:
  "(2::8 word) \<le> 2 \<and> setMotorPosition 2 1700 g_demo = g_demo
   \<and> motor0 (setMotorPosition 2 1700 g_demo) = m_demo
   \<and> pwm_out (setMotorPosition 2 1700 g_demo) = []"
  using setMotorPosition_noop [of 2 g_demo 1700] by (simp add: g_demo_def)

text \<open>
  C4, as the code has it. For a motor with \<open>min \<le> max\<close> and the hardware present: a
  request above \<open>max\<close> gives \<open>pos = max\<close>, \<open>atmax\<close> set and \<open>atmin\<close> clear; a request
  below \<open>min\<close> gives \<open>pos = min\<close> and \<open>atmin\<close> set, with \<open>atmax\<close> clear exactly when
  \<open>min < max\<close>; in all cases the clamped value is stored as \<open>pos\<close>, and \<open>del_pos\<close> is the
  clamped value minus the previous \<open>pos\<close> in 16 bits, which is the difference itself
  whenever that fits an \<open>int16_t\<close>.
\<close>

theorem setMotorPosition_clamps:
  assumes "gimbal_found g" and "motor g motn = Some m" and "min_us m \<le> max_us m"
  shows "\<exists>m'. motor (setMotorPosition motn newpos g) motn = Some m'
      \<and> (max_us m < newpos \<longrightarrow> pos m' = max_us m \<and> atmax m' \<and> \<not> atmin m')
      \<and> (newpos < min_us m \<longrightarrow>
           pos m' = min_us m \<and> atmin m' \<and> (atmax m' \<longleftrightarrow> min_us m = max_us m))
      \<and> pos m' = (if newpos \<le> min_us m then min_us m
                  else if max_us m \<le> newpos then max_us m else newpos)
      \<and> del_pos m' = pos m' - pos m
      \<and> (- 32768 \<le> uint (pos m') - uint (pos m) \<and> uint (pos m') - uint (pos m) \<le> 32767
           \<longrightarrow> sint (del_pos m') = uint (pos m') - uint (pos m))"
  using assms(3) unfolding setMotorPosition_motor [OF assms(1,2)]
  by (auto simp add: sint_sub_exact)

theorem setMotorPosition_clamps_witness:
  "gimbal_found g_demo \<and> motor g_demo 0 = Some m_demo \<and> min_us m_demo \<le> max_us m_demo
   \<and> max_us m_demo < 2500
   \<and> (\<exists>m'. motor (setMotorPosition 0 2500 g_demo) 0 = Some m'
         \<and> pos m' = 2000 \<and> atmax m' \<and> \<not> atmin m' \<and> sint (del_pos m') = 500)"
proof -
  have h1: "gimbal_found g_demo" by (simp add: g_demo_def)
  have h2: "motor g_demo 0 = Some m_demo" by (simp add: g_demo_def motor_def)
  have h3: "min_us m_demo \<le> max_us m_demo" by (simp add: m_demo_def)
  have h4: "max_us m_demo < 2500" by (simp add: m_demo_def)
  from setMotorPosition_clamps [OF h1 h2 h3, of 2500] obtain m' where
    m: "motor (setMotorPosition 0 2500 g_demo) 0 = Some m'"
       "max_us m_demo < 2500 \<longrightarrow> pos m' = max_us m_demo \<and> atmax m' \<and> \<not> atmin m'"
       "- 32768 \<le> uint (pos m') - uint (pos m_demo) \<and> uint (pos m') - uint (pos m_demo) \<le> 32767
           \<longrightarrow> sint (del_pos m') = uint (pos m') - uint (pos m_demo)"
    by blast
  from m(2) h4 have p: "pos m' = 2000" "atmax m'" "\<not> atmin m'" by (simp_all add: m_demo_def)
  from m(3) p(1) have "sint (del_pos m') = 500" by (simp add: m_demo_def)
  with h1 h2 h3 h4 m(1) p show ?thesis by blast
qed

text \<open>
  C4 as stated fails where \<open>min = max\<close>: a request below \<open>min\<close> sets \<open>atmin\<close>, and the
  clamped value then meets \<open>max\<close>, so \<open>atmax\<close> is set too.
\<close>

theorem setMotorPosition_atmax_counterexample:
  "gimbal_found g_pinned
   \<and> min_us (motor0 g_pinned) \<le> max_us (motor0 g_pinned)
   \<and> 1000 < min_us (motor0 g_pinned)
   \<and> atmin (motor0 (setMotorPosition 0 1000 g_pinned))
   \<and> atmax (motor0 (setMotorPosition 0 1000 g_pinned))"
  by (simp add: g_pinned_def g_demo_def m_demo_def setMotorPosition_def NMOTORS_def
      motor_update_def Let_def)

text \<open>
  Where the difference of the positions does not fit an \<open>int16_t\<close>, \<open>del_pos\<close> is not
  that difference: from 0 to 40000 it reads \<open>-25536\<close>.
\<close>

lemma setMotorPosition_del_pos_wraps:
  "pos (motor0 g_wide) = 0
   \<and> pos (motor0 (setMotorPosition 0 40000 g_wide)) = 40000
   \<and> sint (del_pos (motor0 (setMotorPosition 0 40000 g_wide))) = - 25536"
  by (simp add: g_wide_def g_demo_def m_demo_def setMotorPosition_def NMOTORS_def
      motor_update_def Let_def)

section \<open>Installing the stored calibration: results\<close>

text \<open>What the sanity check decides for a marked record that designates motor 0.\<close>

lemma installCalibration_init_step:
  assumes "nv_magic (eeprom g) = MAGIC" and "best_az_motor (eeprom g) = 0"
  shows "init_step (installCalibration stray g) =
     (if fgt (m0_azscale (eeprom g)) (Fin 50) \<or> fgt (m1_elscale (eeprom g)) (Fin 50)
         \<or> nv_init_step (eeprom g) \<noteq> 4 then 0 else 4)"
  using assms
  by (simp add: installCalibration_def nv_get_def Let_def motor_def lnot_def)

text \<open>
  C1 at the record \<open>nv_neg\<close>: the designated azimuth scale is \<open>-60\<close>, of magnitude above
  50, and the stored step is 4. The check compares the scale itself with 50, so the
  record is accepted: the step stays 4 and the controller counts as calibrated.
\<close>

theorem installCalibration_negative_scale:
  "m0_azscale (eeprom g_boot) = Fin (- 60)
   \<and> fgt (fabs (m0_azscale (eeprom g_boot))) (Fin 50)
   \<and> az_scale (motor0 (installCalibration (Fin 0) g_boot)) = Fin (- 60)
   \<and> best_azmotor (installCalibration (Fin 0) g_boot) = 0
   \<and> init_step (installCalibration (Fin 0) g_boot) = 4
   \<and> calibrated (installCalibration (Fin 0) g_boot)"
  by (simp add: installCalibration_def nv_get_def g_boot_def nv_neg_def Let_def motor_def
      lnot_def fgt_def calibrated_def N_INIT_STEPS_def)

theorem installCalibration_negative_scale_witness:
  "init_step (installCalibration (Fin 0) g_boot) \<noteq> 0
   \<and> N_INIT_STEPS \<le> init_step (installCalibration (Fin 0) g_boot)"
  using installCalibration_negative_scale by (simp add: N_INIT_STEPS_def)

section \<open>Control tick: results\<close>

text \<open>
  C3, as the code has it. A tick that passes the rate limit and reads an azimuth below 0
  or above 360, or an elevation below 0 or above 90, refreshes the sensor, sets
  \<open>last_update\<close> to the current time and changes nothing else: no motor command is
  issued, and no other field of the controller or of either motor is written. The
  comparisons are ordered: a reading that is not a number is neither below nor above a
  bound, and the tick is not abandoned. With an azimuth that is not a number and an
  elevation that passes the test, or an elevation that is not a number and an azimuth
  that passes the test, the tick counts as unsettled, issues no command and records the
  reading as the last-fast one.
\<close>

theorem moveToAzEl_out_of_domain:
  assumes "\<not> now < last_update g + ucast UPD_PERIOD"
  shows "(fless az (Fin 0) \<or> fgt az (Fin 360) \<or> fless el (Fin 0) \<or> fgt el (Fin 90) \<longrightarrow>
            moveToAzEl oor now az el az_t el_t g =
              Some (g\<lparr>last_update := now, sensor_reads := Suc (sensor_reads g)\<rparr>))
       \<and> (\<not> fless el (Fin 0) \<and> \<not> fgt el (Fin 90) \<longrightarrow>
            moveToAzEl oor now NaN el az_t el_t g =
              Some (g\<lparr>last_update := now, sensor_reads := Suc (sensor_reads g),
                      prevfast_az := NaN, prevfast_el := el\<rparr>))
       \<and> (\<not> fless az (Fin 0) \<and> \<not> fgt az (Fin 360) \<longrightarrow>
            moveToAzEl oor now az NaN az_t el_t g =
              Some (g\<lparr>last_update := now, sensor_reads := Suc (sensor_reads g),
                      prevfast_az := az, prevfast_el := NaN\<rparr>))"
proof (intro conjI impI)
  assume "fless az (Fin 0) \<or> fgt az (Fin 360) \<or> fless el (Fin 0) \<or> fgt el (Fin 90)"
  with assms show "moveToAzEl oor now az el az_t el_t g =
      Some (g\<lparr>last_update := now, sensor_reads := Suc (sensor_reads g)\<rparr>)"
    by (simp add: moveToAzEl_def Let_def)
next
  assume "\<not> fless el (Fin 0) \<and> \<not> fgt el (Fin 90)"
  moreover have "azDist x NaN = NaN" for x
    by (cases x) (simp_all add: azDist_def fsub_def fgt_def Let_def)
  ultimately show "moveToAzEl oor now NaN el az_t el_t g =
      Some (g\<lparr>last_update := now, sensor_reads := Suc (sensor_reads g),
              prevfast_az := NaN, prevfast_el := el\<rparr>)"
    using assms by (simp add: moveToAzEl_def Let_def fgt_def)
next
  assume "\<not> fless az (Fin 0) \<and> \<not> fgt az (Fin 360)"
  moreover have "fsub B32 NaN x = NaN" for x
    by (cases x) (simp_all add: fsub_def)
  ultimately show "moveToAzEl oor now az NaN az_t el_t g =
      Some (g\<lparr>last_update := now, sensor_reads := Suc (sensor_reads g),
              prevfast_az := az, prevfast_el := NaN\<rparr>)"
    using assms by (simp add: moveToAzEl_def Let_def fgt_def)
qed

theorem moveToAzEl_out_of_domain_witness:
  "\<not> 1000 < last_update g_demo + ucast UPD_PERIOD
   \<and> fless (Fin (- 5)) (Fin 0)
   \<and> moveToAzEl oor_demo 1000 (Fin 100) (Fin (- 5)) (Fin 110) (Fin 50) g_demo =
       Some (g_demo\<lparr>last_update := 1000, sensor_reads := 1\<rparr>)
   \<and> \<not> fless (Fin 45) (Fin 0) \<and> \<not> fgt (Fin 45) (Fin 90)
   \<and> moveToAzEl oor_demo 1000 NaN (Fin 45) (Fin 110) (Fin 50) g_demo =
       Some (g_demo\<lparr>last_update := 1000, sensor_reads := 1,
                    prevfast_az := NaN, prevfast_el := Fin 45\<rparr>)
   \<and> \<not> fless (Fin 100) (Fin 0) \<and> \<not> fgt (Fin 100) (Fin 360)
   \<and> moveToAzEl oor_demo 1000 (Fin 100) NaN (Fin 110) (Fin 50) g_demo =
       Some (g_demo\<lparr>last_update := 1000, sensor_reads := 1,
                    prevfast_az := Fin 100, prevfast_el := NaN\<rparr>)"
proof -
  have h1: "\<not> 1000 < last_update g_demo + ucast UPD_PERIOD"
    by (simp add: g_demo_def UPD_PERIOD_def)
  have h2: "fless (Fin (- 5)) (Fin 0)" by simp
  have h3: "\<not> fless (Fin 45) (Fin 0) \<and> \<not> fgt (Fin 45) (Fin 90)" by (simp add: fgt_def)
  have s: "sensor_reads g_demo = 0" by (simp add: g_demo_def)
  note T = moveToAzEl_out_of_domain [OF h1]
  have a: "moveToAzEl oor_demo 1000 (Fin 100) (Fin (- 5)) (Fin 110) (Fin 50) g_demo =
       Some (g_demo\<lparr>last_update := 1000, sensor_reads := 1\<rparr>)"
    using T [of "Fin 100" "Fin (- 5)" oor_demo "Fin 110" "Fin 50", THEN conjunct1] h2
    by (simp add: s)
  have b: "moveToAzEl oor_demo 1000 NaN (Fin 45) (Fin 110) (Fin 50) g_demo =
       Some (g_demo\<lparr>last_update := 1000, sensor_reads := 1,
                    prevfast_az := NaN, prevfast_el := Fin 45\<rparr>)"
    using T [of "Fin 100" "Fin 45" oor_demo "Fin 110" "Fin 50", THEN conjunct2, THEN conjunct1] h3
    by (simp add: s)
  have h4: "\<not> fless (Fin 100) (Fin 0) \<and> \<not> fgt (Fin 100) (Fin 360)" by (simp add: fgt_def)
  have c: "moveToAzEl oor_demo 1000 (Fin 100) NaN (Fin 110) (Fin 50) g_demo =
       Some (g_demo\<lparr>last_update := 1000, sensor_reads := 1,
                    prevfast_az := Fin 100, prevfast_el := NaN\<rparr>)"
    using T [of "Fin 100" "Fin 45" oor_demo "Fin 110" "Fin 50", THEN conjunct2, THEN conjunct2] h4
    by (simp add: s)
  show ?thesis using h1 h2 h3 h4 a b c by (intro conjI) simp_all
qed

text \<open>
  C3 as stated fails on the timestamp: at time 1000 the gimbal \<open>g_demo\<close>, last updated
  at 0, reads the elevation \<open>-5\<close>, and the abandoned tick leaves \<open>last_update = 1000\<close>.
\<close>

theorem moveToAzEl_timestamp_counterexample:
  "\<not> 1000 < last_update g_demo + ucast UPD_PERIOD
   \<and> fless (Fin (- 5)) (Fin 0)
   \<and> last_update g_demo = 0
   \<and> map_option last_update
        (moveToAzEl oor_demo 1000 (Fin 100) (Fin (- 5)) (Fin 110) (Fin 50) g_demo) = Some 1000"
  by (simp add: moveToAzEl_def g_demo_def UPD_PERIOD_def fgt_def Let_def)

text \<open>
  The rate limit. As long as \<open>last_update + 500\<close> does not pass \<open>2^32\<close>, the test of
  the source is the comparison of the times, and a call less than 500 ms after
  \<open>last_update\<close> returns the state as it was.
\<close>

lemma rate_gate_exact:
  assumes "unat (last_update g) + 500 < 2 ^ 32"
  shows "now < last_update g + ucast UPD_PERIOD \<longleftrightarrow> unat now < unat (last_update g) + 500"
proof -
  have u: "ucast UPD_PERIOD = (500 :: 32 word)" by (simp add: UPD_PERIOD_def)
  have "unat (last_update g + 500) = unat (last_update g) + 500"
    using assms unat_add_lem [of "last_update g" 500] by simp
  then show ?thesis by (simp add: u word_less_nat_alt)
qed

lemma moveToAzEl_rate_limited:
  assumes "unat (last_update g) + 500 < 2 ^ 32"
    and "unat now < unat (last_update g) + 500"
  shows "moveToAzEl oor now az el az_t el_t g = Some g"
  using assms by (simp add: moveToAzEl_def rate_gate_exact)

lemmas tick_defs =
  moveToAzEl_def UPD_PERIOD_def azDist_def fsub_def calibrated_def
  N_INIT_STEPS_def seekTarget_def reCal_def fge_def fgt_def motor_def lnot_def
  setMotorPosition_def NMOTORS_def motor_update_def u2f_def i2f_def Let_def
  float_constants pwm_ticks_eval

text \<open>
  C8 at the wrap of \<open>millis()\<close>. The gimbal \<open>g_wrap\<close> was last updated at
  \<open>2^32 - 700\<close>. A tick at \<open>2^32 - 100\<close> acts and commands both motors. The sum
  \<open>last_update + 500\<close> then wraps to 400, so a second tick 50 ms later, at
  \<open>2^32 - 50\<close>, is not below it: it acts too, and commands both motors again.
\<close>

theorem moveToAzEl_rate_limit_wraps:
  "last_update g_wrap = 4294966596
   \<and> pwm_out g_wrap = []
   \<and> map_option (\<lambda>g. (pwm_out g, last_update g))
        (moveToAzEl oor_demo 4294967196 (Fin 100) (Fin 45) (Fin 110) (Fin 50) g_wrap)
       = Some ([(0, 0, 327), (1, 0, 317)], 4294967196)
   \<and> map_option (\<lambda>g. (pwm_out g, last_update g))
        (Option.bind
           (moveToAzEl oor_demo 4294967196 (Fin 100) (Fin 45) (Fin 110) (Fin 50) g_wrap)
           (moveToAzEl oor_demo 4294967246 (Fin 100) (Fin 45) (Fin 110) (Fin 50)))
       = Some ([(0, 0, 327), (1, 0, 317), (0, 0, 348), (1, 0, 327)], 4294967246)"
  by (simp add: tick_defs g_wrap_def g_demo_def m_demo_def)

theorem moveToAzEl_rate_limit_wraps_witness:
  "map_option (\<lambda>g. length (pwm_out g))
        (Option.bind
           (moveToAzEl oor_demo 4294967196 (Fin 100) (Fin 45) (Fin 110) (Fin 50) g_wrap)
           (moveToAzEl oor_demo 4294967246 (Fin 100) (Fin 45) (Fin 110) (Fin 50)))
       = Some 4"
proof -
  from moveToAzEl_rate_limit_wraps obtain g where
    g: "Option.bind
           (moveToAzEl oor_demo 4294967196 (Fin 100) (Fin 45) (Fin 110) (Fin 50) g_wrap)
           (moveToAzEl oor_demo 4294967246 (Fin 100) (Fin 45) (Fin 110) (Fin 50)) = Some g"
       "pwm_out g = [(0, 0, 327), (1, 0, 317), (0, 0, 348), (1, 0, 327)]"
    by auto
  then show ?thesis by simp
qed

section \<open>Recalibration: results\<close>

text \<open>A magnitude test of the source as a two-sided test.\<close>

lemma fabs_less_iff:
  "fless (fabs x) (Fin t) \<longleftrightarrow> fless (Fin (- t)) x \<and> fless x (Fin t)"
  by (cases x) auto

lemma fabs_ge_iff:
  "fge (fabs x) (Fin t) \<longleftrightarrow> fle (Fin t) x \<or> fle x (Fin (- t))"
  by (cases x) (auto simp add: fge_def)

lemma lnot_simps [simp]: "lnot 0 = 1" "lnot 1 = 0"
  by (simp_all add: lnot_def)


lemma motor_01 [simp]: "motor g 0 = Some (motor0 g)" "motor g 1 = Some (motor1 g)"
  by (simp_all add: motor_def)

text \<open>\<open>reCal\<close> as two gated updates, when both motors can be addressed.\<close>

lemma reCal_result:
  assumes "motor g (best_azmotor g) = Some azm" and "motor g (lnot (best_azmotor g)) = Some elm"
  shows "reCal az_s el_s g =
     Some (motor_update (lnot (best_azmotor g))
             (elm\<lparr>el_scale := gated_scale (fsub B32 el_s (prevstop_el g)) (del_pos elm) (el_scale elm)\<rparr>)
          (motor_update (best_azmotor g)
             (azm\<lparr>az_scale := gated_scale (azDist (prevstop_az g) az_s) (del_pos azm) (az_scale azm)\<rparr>) g))"
proof -
  have b: "best_azmotor (motor_update i x g) = best_azmotor g" for i x
    by (simp add: motor_update_def)
  have p: "prevstop_el (motor_update i x g) = prevstop_el g" for i x
    by (simp add: motor_update_def)
  have e: "motor (motor_update (best_azmotor g) x g) (lnot (best_azmotor g)) = Some elm" for x
    using assms(2) motor_cases [OF assms(1)]
    by (auto simp add: motor_def motor_update_def)
  have id: "motor_update i x h = h" if "motor h i = Some x" for i x h
    using motor_cases [OF that] by (auto simp add: motor_update_def)
  show ?thesis
    unfolding reCal_def gated_scale_def Let_def
    by (simp add: assms b p e id fabs_less_iff fabs_ge_iff float_constants)
qed

text \<open>
  C5. With \<open>azm\<close> the azimuth motor and \<open>elm\<close> the other one, \<open>reCal\<close> returns a state
  in which the azimuth motor's \<open>az_scale\<close> is the gated scale for the azimuth motion
  since the last stable reading and that motor's \<open>del_pos\<close> (the candidate
  \<open>del_pos / motion\<close> when the motion is 30 degrees or more in either direction and the
  candidate is within 10 percent of the current scale, the current scale otherwise),
  the other motor's \<open>el_scale\<close> is the gated scale for the elevation motion and its own
  \<open>del_pos\<close>, and nothing else has changed.
\<close>

theorem reCal_gating:
  assumes "motor g (best_azmotor g) = Some azm" and "motor g (lnot (best_azmotor g)) = Some elm"
  shows "\<exists>g'. reCal az_s el_s g = Some g'
     \<and> motor g' (best_azmotor g) =
         Some (azm\<lparr>az_scale := gated_scale (azDist (prevstop_az g) az_s) (del_pos azm) (az_scale azm)\<rparr>)
     \<and> motor g' (lnot (best_azmotor g)) =
         Some (elm\<lparr>el_scale := gated_scale (fsub B32 el_s (prevstop_el g)) (del_pos elm) (el_scale elm)\<rparr>)
     \<and> g'\<lparr>motor0 := motor0 g, motor1 := motor1 g\<rparr> = g"
  unfolding reCal_result [OF assms]
  using assms motor_cases [OF assms(1)]
  by (auto simp add: motor_update_def)

text \<open>
  The rule on given numbers, in \<open>float\<close> arithmetic. A move of 35 degrees, in either
  direction, with a candidate within 10 percent is adopted, and the scale stored is the
  \<open>float\<close> quotient (\<open>357 / 35\<close> is stored as \<open>10.19999980926513671875\<close>); with the
  scale 3, a pulse change of 99 and a move of 30 degrees the candidate is adopted, its
  \<open>float\<close> fraction being below \<open>MAX_CHANGE\<close>. A move of 20 degrees is not adopted; a
  move of 35 degrees with a candidate 20 or 10 percent off is not; a current scale of
  zero or infinity is never replaced.
\<close>

lemmas gate_eval =
  gated_scale_def i2f_def fsub_def float_constants fp_eval

lemma gated_scale_examples:
  "gated_scale (Fin 35) 357 (Fin 10) = Fin (10695475 / 1048576)"
  "gated_scale (Fin (- 35)) (- 357) (Fin 10) = Fin (10695475 / 1048576)"
  "gated_scale (Fin (- 35)) 357 (Fin (- 10)) = Fin (- (10695475 / 1048576))"
  "gated_scale (Fin 30) 99 (Fin 3) = Fin (13841203 / 4194304)"
  "gated_scale (Fin 20) 204 (Fin 10) = Fin 10"
  "gated_scale (Fin (- 20)) (- 204) (Fin 10) = Fin 10"
  "gated_scale (Fin 35) 420 (Fin 10) = Fin 10"
  "gated_scale (Fin 35) 385 (Fin 10) = Fin 10"
  "gated_scale (Fin 35) 357 (Fin 0) = Fin 0"
  "gated_scale (Fin 35) 357 PInf = PInf"
  by (simp_all add: gate_eval)

theorem reCal_gating_witness:
  "motor g_moved (best_azmotor g_moved) = Some (m_demo\<lparr>del_pos := - 357\<rparr>)
   \<and> motor g_moved (lnot (best_azmotor g_moved)) = Some (m_demo\<lparr>servo_num := 1, del_pos := 204\<rparr>)
   \<and> azDist (prevstop_az g_moved) (Fin 100) = Fin (- 35)
   \<and> fsub B32 (Fin 65) (prevstop_el g_moved) = Fin 20
   \<and> (\<exists>g'. reCal (Fin 100) (Fin 65) g_moved = Some g'
         \<and> motor g' 0 = Some (m_demo\<lparr>del_pos := - 357, az_scale := Fin (10695475 / 1048576)\<rparr>)
         \<and> motor g' 1 = Some (m_demo\<lparr>servo_num := 1, del_pos := 204\<rparr>))"
proof -
  have h1: "motor g_moved (best_azmotor g_moved) = Some (m_demo\<lparr>del_pos := - 357\<rparr>)"
    by (simp add: g_moved_def g_demo_def)
  have h2: "motor g_moved (lnot (best_azmotor g_moved)) =
      Some (m_demo\<lparr>servo_num := 1, del_pos := 204\<rparr>)"
    by (simp add: g_moved_def g_demo_def)
  have b: "best_azmotor g_moved = 0" by (simp add: g_moved_def g_demo_def)
  have mv: "azDist (prevstop_az g_moved) (Fin 100) = Fin (- 35)"
    by (simp add: g_moved_def g_demo_def azDist_def fsub_def fgt_def)
  have ev: "fsub B32 (Fin 65) (prevstop_el g_moved) = Fin 20"
    by (simp add: g_moved_def g_demo_def fsub_def)
  have a: "gated_scale (azDist (prevstop_az g_moved) (Fin 100)) (del_pos (m_demo\<lparr>del_pos := - 357\<rparr>))
             (az_scale (m_demo\<lparr>del_pos := - 357\<rparr>)) = Fin (10695475 / 1048576)"
    unfolding mv by (simp add: m_demo_def gated_scale_examples)
  have e: "gated_scale (fsub B32 (Fin 65) (prevstop_el g_moved))
             (del_pos (m_demo\<lparr>servo_num := 1, del_pos := 204\<rparr>))
             (el_scale (m_demo\<lparr>servo_num := 1, del_pos := 204\<rparr>)) = Fin 10"
    unfolding ev by (simp add: m_demo_def gated_scale_examples)
  from reCal_gating [OF h1 h2, of "Fin 100" "Fin 65"] obtain g' where
    g: "reCal (Fin 100) (Fin 65) g_moved = Some g'"
       "motor g' (best_azmotor g_moved) = Some (m_demo\<lparr>del_pos := - 357, az_scale :=
            gated_scale (azDist (prevstop_az g_moved) (Fin 100)) (del_pos (m_demo\<lparr>del_pos := - 357\<rparr>))
             (az_scale (m_demo\<lparr>del_pos := - 357\<rparr>))\<rparr>)"
       "motor g' (lnot (best_azmotor g_moved)) = Some (m_demo\<lparr>servo_num := 1, del_pos := 204, el_scale :=
           gated_scale (fsub B32 (Fin 65) (prevstop_el g_moved))
             (del_pos (m_demo\<lparr>servo_num := 1, del_pos := 204\<rparr>))
             (el_scale (m_demo\<lparr>servo_num := 1, del_pos := 204\<rparr>))\<rparr>)"
    by auto
  have "motor g' 0 = Some (m_demo\<lparr>del_pos := - 357, az_scale := Fin (10695475 / 1048576)\<rparr>)"
    using g(2) unfolding a b by simp
  moreover have "motor g' 1 = Some (m_demo\<lparr>servo_num := 1, del_pos := 204\<rparr>)"
    using g(3) unfolding e b by (simp add: m_demo_def)
  ultimately show ?thesis using h1 h2 mv ev g(1) by blast
qed

section \<open>Seeking the target: results\<close>


lemma setMotorPosition_best [simp]:
  "best_azmotor (setMotorPosition motn newpos g) = best_azmotor g"
  by (simp add: setMotorPosition_def motor_update_def Let_def)

lemma motor_update_best [simp]:
  "best_azmotor (motor_update i m g) = best_azmotor g"
  by (simp add: motor_update_def)








section \<open>Calibration sequence: results\<close>

lemma calibrate_init_step: "init_step (calibrate oor az el g) = init_step g + 1"
  by (simp add: calibrate_def Let_def setMotorPosition_def motor_update_def saveCalibration_def nv_put_def)

text \<open>What a calibration step keeps, and the scales it computes.\<close>

lemma calibrate_keeps:
  "gimbal_found (calibrate oor a e g) = gimbal_found g"
  "min_us (motor0 (calibrate oor a e g)) = min_us (motor0 g)"
  "max_us (motor0 (calibrate oor a e g)) = max_us (motor0 g)"
  "min_us (motor1 (calibrate oor a e g)) = min_us (motor1 g)"
  "max_us (motor1 (calibrate oor a e g)) = max_us (motor1 g)"
  by (simp_all add: calibrate_def Let_def setMotorPosition_def motor_update_def
      saveCalibration_def nv_put_def)

lemma calibrate_step2_scale:
  assumes "init_step g = 2"
  shows "az_scale (motor0 (calibrate oor a e g)) =
     fdiv B32 (fmul B32 (u2f (max_us (motor0 g) - min_us (motor0 g))) CAL_FRAC) (azDist (prevstop_az g) a)"
  using assms
  by (simp add: calibrate_def Let_def setMotorPosition_def motor_update_def)

lemma calibrate_step3_scales:
  assumes "init_step g = 3"
  shows "az_scale (motor0 (calibrate oor a e g)) = az_scale (motor0 g)"
    and "az_scale (motor1 (calibrate oor a e g)) =
     fdiv B32 (fmul B32 (u2f (max_us (motor1 g) - min_us (motor1 g))) CAL_FRAC) (azDist (prevstop_az g) a)"
  using assms
  by (simp_all add: calibrate_def Let_def saveCalibration_def nv_put_def)

text \<open>The comparison of the source is the comparison of the magnitudes.\<close>

lemma fabs_less_fabs: "fless (fabs a) (fabs b) = mag_less a b"
  by (cases a; cases b) simp_all

text \<open>
  C7. The final step (entered with \<open>init_step = 3\<close>) sets \<open>best_azmotor\<close> to 0 if the
  magnitude of motor 0's \<open>az_scale\<close> is below that of motor 1's, and to 1 otherwise;
  it writes the scales, the index and the step to the store; and it leaves
  \<open>init_step = 4\<close>, so that \<open>calibrated\<close> holds. Four steps from \<open>init_step = 0\<close>, each
  followed by the recording of the stable reading, reach \<open>init_step = 4\<close>, and not before
  the fourth.
\<close>

theorem calibrate_final_step:
  assumes "init_step g = 3" and "init_step h = 0"
  shows "(let g' = calibrate oor az_s el_s g in
           best_azmotor g' =
             (if mag_less (az_scale (motor0 g')) (az_scale (motor1 g')) then 0 else 1)
         \<and> eeprom g' = nv g'
         \<and> best_az_motor (nv g') = best_azmotor g'
         \<and> m0_azscale (nv g') = az_scale (motor0 g') \<and> m0_elscale (nv g') = el_scale (motor0 g')
         \<and> m1_azscale (nv g') = az_scale (motor1 g') \<and> m1_elscale (nv g') = el_scale (motor1 g')
         \<and> nv_init_step (nv g') = 4
         \<and> init_step g' = 4 \<and> calibrated g' \<and> \<not> isCalibrating g')
     \<and> (let h1 = (calibrate oor a1 e1 h)\<lparr>prevstop_az := a1, prevstop_el := e1\<rparr>;
             h2 = (calibrate oor a2 e2 h1)\<lparr>prevstop_az := a2, prevstop_el := e2\<rparr>;
             h3 = (calibrate oor a3 e3 h2)\<lparr>prevstop_az := a3, prevstop_el := e3\<rparr>;
             h4 = (calibrate oor a4 e4 h3)\<lparr>prevstop_az := a4, prevstop_el := e4\<rparr>
         in \<not> calibrated h3 \<and> init_step h4 = 4 \<and> calibrated h4)"
proof (intro conjI)
  show "let g' = calibrate oor az_s el_s g in
           best_azmotor g' =
             (if mag_less (az_scale (motor0 g')) (az_scale (motor1 g')) then 0 else 1)
         \<and> eeprom g' = nv g'
         \<and> best_az_motor (nv g') = best_azmotor g'
         \<and> m0_azscale (nv g') = az_scale (motor0 g') \<and> m0_elscale (nv g') = el_scale (motor0 g')
         \<and> m1_azscale (nv g') = az_scale (motor1 g') \<and> m1_elscale (nv g') = el_scale (motor1 g')
         \<and> nv_init_step (nv g') = 4
         \<and> init_step g' = 4 \<and> calibrated g' \<and> \<not> isCalibrating g'"
    using assms(1)
    by (simp add: calibrate_def Let_def saveCalibration_def nv_put_def calibrated_def
        N_INIT_STEPS_def fabs_less_fabs)
next
  show "let h1 = (calibrate oor a1 e1 h)\<lparr>prevstop_az := a1, prevstop_el := e1\<rparr>;
             h2 = (calibrate oor a2 e2 h1)\<lparr>prevstop_az := a2, prevstop_el := e2\<rparr>;
             h3 = (calibrate oor a3 e3 h2)\<lparr>prevstop_az := a3, prevstop_el := e3\<rparr>;
             h4 = (calibrate oor a4 e4 h3)\<lparr>prevstop_az := a4, prevstop_el := e4\<rparr>
         in \<not> calibrated h3 \<and> init_step h4 = 4 \<and> calibrated h4"
    using assms(2)
    by (simp add: Let_def calibrate_init_step calibrated_def N_INIT_STEPS_def)
qed

text \<open>
  The scales of an excursion of 333 microseconds (\<open>0.333\<close> of a range of 1000, in
  \<open>float\<close> arithmetic) that turns the azimuth by 40, by 5 and by \<open>-5\<close> degrees.
\<close>

lemma scale_examples:
  "fmul B32 (Fin 1000) CAL_FRAC = Fin 333"
  "round_fp B32 (333 / 40) = Fin (8729395 / 1048576)"
  "round_fp B32 (333 / 5) = Fin (8729395 / 131072)"
  "round_fp B32 (- (333 / 5)) = Fin (- (8729395 / 131072))"
  by (simp_all add: float_constants fp_eval)

lemma g_cal3_eval:
  "init_step g_cal3 = 3" "az_scale (motor0 g_cal3) = Fin (8729395 / 1048576)"
  "prevstop_az g_cal3 = Fin 140"
  "max_us (motor1 g_cal3) - min_us (motor1 g_cal3) = 1000"
proof -
  have i0: "init_step g_boot = 0" by (simp add: g_boot_def)
  have r: "max_us (motor0 g_boot) - min_us (motor0 g_boot) = 1000"
    "max_us (motor1 g_boot) - min_us (motor1 g_boot) = 1000"
    by (simp_all add: g_boot_def)
  show "init_step g_cal3 = 3"
    by (simp add: g_cal3_def calibrate_init_step i0)
  show "prevstop_az g_cal3 = Fin 140"
    by (simp add: g_cal3_def)
  show "max_us (motor1 g_cal3) - min_us (motor1 g_cal3) = 1000"
    by (simp add: g_cal3_def calibrate_keeps r)
  show "az_scale (motor0 g_cal3) = Fin (8729395 / 1048576)"
    by (simp add: g_cal3_def calibrate_step2_scale calibrate_init_step i0 calibrate_keeps r
        u2f_def azDist_def fsub_def fgt_def scale_examples)
qed

theorem calibrate_final_step_witness:
  "init_step g_cal3 = 3 \<and> init_step g_boot = 0
   \<and> az_scale (motor0 (calibrate oor_demo (Fin 135) (Fin 52) g_cal3)) = Fin (8729395 / 1048576)
   \<and> az_scale (motor1 (calibrate oor_demo (Fin 135) (Fin 52) g_cal3)) = Fin (- (8729395 / 131072))
   \<and> \<not> fless (az_scale (motor0 (calibrate oor_demo (Fin 135) (Fin 52) g_cal3)))
             (az_scale (motor1 (calibrate oor_demo (Fin 135) (Fin 52) g_cal3)))
   \<and> best_azmotor (calibrate oor_demo (Fin 135) (Fin 52) g_cal3) = 0
   \<and> best_az_motor (eeprom (calibrate oor_demo (Fin 135) (Fin 52) g_cal3)) = 0
   \<and> nv_init_step (eeprom (calibrate oor_demo (Fin 135) (Fin 52) g_cal3)) = 4
   \<and> init_step (calibrate oor_demo (Fin 135) (Fin 52) g_cal3) = 4
   \<and> calibrated (calibrate oor_demo (Fin 135) (Fin 52) g_cal3)"
proof -
  let ?g = "calibrate oor_demo (Fin 135) (Fin 52) g_cal3"
  have h1: "init_step g_cal3 = 3" by (rule g_cal3_eval)
  have h2: "init_step g_boot = 0" by (simp add: g_boot_def)
  have s0: "az_scale (motor0 ?g) = Fin (8729395 / 1048576)"
    by (simp add: calibrate_step3_scales [OF h1] g_cal3_eval)
  have s1: "az_scale (motor1 ?g) = Fin (- (8729395 / 131072))"
    by (simp add: calibrate_step3_scales [OF h1] g_cal3_eval u2f_def azDist_def fsub_def
        fgt_def scale_examples)
  from calibrate_final_step [OF h1 h2, of oor_demo "Fin 135" "Fin 52"]
  have t: "best_azmotor ?g =
             (if mag_less (az_scale (motor0 ?g)) (az_scale (motor1 ?g)) then 0 else 1)"
     "eeprom ?g = nv ?g" "best_az_motor (nv ?g) = best_azmotor ?g"
     "nv_init_step (nv ?g) = 4" "init_step ?g = 4" "calibrated ?g"
    by (simp_all add: Let_def)
  from t(1) have b: "best_azmotor ?g = 0" unfolding s0 s1 by simp
  have n: "\<not> fless (az_scale (motor0 ?g)) (az_scale (motor1 ?g))"
    unfolding s0 s1 by simp
  show ?thesis using h1 h2 s0 s1 n b t(2-6) by simp
qed

section \<open>Position limits: results\<close>

text \<open>
  The invariant \<open>min \<le> pos \<le> max\<close> of a motor is kept by every operation that leaves
  that motor's limits alone.
\<close>

lemma pos_in_limits_scales [simp]:
  "pos_in_limits (m\<lparr>az_scale := a\<rparr>) = pos_in_limits m"
  "pos_in_limits (m\<lparr>el_scale := e\<rparr>) = pos_in_limits m"
  by (simp_all add: pos_in_limits_def)

lemma motor_in_limits_iff:
  "motor_in_limits i g =
     ((i = 0 \<longrightarrow> pos_in_limits (motor0 g)) \<and> (i = 1 \<longrightarrow> pos_in_limits (motor1 g)))"
  by (auto simp add: motor_in_limits_def motor_def)

lemma mil_setMotorPosition:
  "motor_in_limits i g \<Longrightarrow> motor_in_limits i (setMotorPosition motn newpos g)"
  by (auto simp add: motor_in_limits_iff pos_in_limits_def setMotorPosition_def
      motor_update_def Let_def)

lemma mil_motor_update_az:
  "motor_in_limits i g \<Longrightarrow> motor g j = Some m \<Longrightarrow>
     motor_in_limits i (motor_update j (m\<lparr>az_scale := a\<rparr>) g)"
  by (auto simp add: motor_in_limits_iff motor_update_def dest: motor_cases)

lemma mil_motor_update_el:
  "motor_in_limits i g \<Longrightarrow> motor g j = Some m \<Longrightarrow>
     motor_in_limits i (motor_update j (m\<lparr>el_scale := a\<rparr>) g)"
  by (auto simp add: motor_in_limits_iff motor_update_def dest: motor_cases)

lemma mil_reCal:
  assumes "motor_in_limits i g" and "reCal az_s el_s g = Some g'"
  shows "motor_in_limits i g'"
  using assms
  by (auto simp add: reCal_def Let_def mil_motor_update_az mil_motor_update_el
      split: if_splits Option.bind_splits)

lemma mil_seekTarget:
  assumes "motor_in_limits i g" and "seekTarget oor az_t el_t az_s el_s g = Some g'"
  shows "motor_in_limits i g'"
  using assms
  by (auto simp add: seekTarget_def Let_def mil_setMotorPosition
      split: if_splits Option.bind_splits dest: mil_reCal)

lemma mil_calibrate:
  assumes "motor_in_limits i g"
  shows "motor_in_limits i (calibrate oor az_s el_s g)"
proof -
  let ?g = "g\<lparr>user_message := ''Calibrating gimbal'', isCalibrating := True,
                  init_step := init_step g + 1\<rparr>"
  have g: "motor_in_limits i ?g" using assms by (simp add: motor_in_limits_iff)
  have s0: "motor_in_limits i (?g\<lparr>motor0 := (motor0 ?g)\<lparr>az_scale := a, el_scale := e\<rparr>\<rparr>)" for a e
    using assms by (simp add: motor_in_limits_iff)
  have s1: "motor_in_limits i (?g\<lparr>motor1 := (motor1 ?g)\<lparr>az_scale := a, el_scale := e\<rparr>\<rparr>)" for a e
    using assms by (simp add: motor_in_limits_iff)
  have sv: "motor_in_limits i h \<Longrightarrow>
      motor_in_limits i ((saveCalibration (h\<lparr>best_azmotor := b\<rparr>))\<lparr>isCalibrating := False\<rparr>)" for h b
    by (simp add: motor_in_limits_iff saveCalibration_def nv_put_def)
  have bg: "motor_in_limits i (?g\<lparr>user_message := u\<rparr>)" for u
    using assms by (simp add: motor_in_limits_iff)
  show ?thesis
    unfolding calibrate_def Let_def
    by (intro conjI impI mil_setMotorPosition g s0 s1 sv bg if_split [THEN iffD2])
qed

lemma mil_moveToAzEl:
  assumes "motor_in_limits i g" and "moveToAzEl oor now az el az_t el_t g = Some g'"
  shows "motor_in_limits i g'"
proof -
  let ?g = "g\<lparr>last_update := now, sensor_reads := Suc (sensor_reads g)\<rparr>"
  have g: "motor_in_limits i ?g" using assms(1) by (simp add: motor_in_limits_iff)
  have c: "motor_in_limits i (calibrate oor az el ?g)" by (rule mil_calibrate [OF g])
  have s: "seekTarget oor az_t el_t az el ?g = Some x \<Longrightarrow> motor_in_limits i x" for x
    by (rule mil_seekTarget [OF g])
  have u: "motor_in_limits i x \<Longrightarrow> motor_in_limits i
      (x\<lparr>prevstop_az := az, prevstop_el := el, prevfast_az := az, prevfast_el := el\<rparr>)" for x
    by (simp add: motor_in_limits_iff)
  have u2: "motor_in_limits i x \<Longrightarrow>
      motor_in_limits i (x\<lparr>prevfast_az := az, prevfast_el := el\<rparr>)" for x
    by (simp add: motor_in_limits_iff)
  from assms(2) show ?thesis
    using assms(1) g c s u u2
    by (auto simp add: moveToAzEl_def Let_def split: if_splits Option.bind_splits)
qed

lemma mil_save_loop:
  assumes "motor_in_limits i g" and "save_loop oor ticks g = Some (g', rest)"
  shows "motor_in_limits i g'"
  using assms
proof (induction ticks arbitrary: g)
  case Nil
  then show ?case by (simp split: if_splits)
next
  case (Cons t ts)
  then show ?case
    by (auto split: if_splits option.splits dest: mil_moveToAzEl)
qed

lemma mil_installCalibration:
  "motor_in_limits i g \<Longrightarrow> motor_in_limits i (installCalibration stray g)"
  by (simp add: installCalibration_def nv_get_def Let_def motor_in_limits_iff)

lemma mil_resetInitStep:
  "motor_in_limits i g \<Longrightarrow> motor_in_limits i (resetInitStep g)"
  by (simp add: resetInitStep_def motor_in_limits_iff)

lemma mil_user_message:
  "motor_in_limits i (g\<lparr>user_message := u\<rparr>) = motor_in_limits i g"
  by (simp add: motor_in_limits_iff)

lemma mil_overrideValue:
  assumes "motor_in_limits i g" and "overrideValue oor sc ticks name v g = Some (r, g')"
    and "name \<notin> limit_names i"
  shows "motor_in_limits i g'"
proof (cases "name = ''G_Save''")
  case False
  have nm: "motor_in_limits j (nv_put (g\<lparr>motor0 := m, nv := n\<rparr>)) = motor_in_limits j g"
    if "j \<noteq> 0" for j m n
    using that by (simp add: motor_in_limits_iff nv_put_def)
  have nm1: "motor_in_limits j (nv_put (g\<lparr>motor1 := m, nv := n\<rparr>)) = motor_in_limits j g"
    if "j \<noteq> 1" for j m n
    using that by (simp add: motor_in_limits_iff nv_put_def)
  from assms False show ?thesis
    by (auto simp add: overrideValue_def Let_def mil_setMotorPosition mil_user_message
        limit_names_def nm nm1 split: if_splits)
next
  case True
  show ?thesis
  proof (cases "gimbal_found g \<and> sc")
    case False
    with assms True show ?thesis
      by (auto simp add: overrideValue_def Let_def mil_user_message split: if_splits)
  next
    case gs: True
    from assms(2) True gs obtain g1 t1 t2 ts g2 g3 where
      l: "save_loop oor ticks (resetInitStep g) = Some (g1, t1 # t2 # ts)"
      and m2: "moveToAzEl oor (fst t1) (fst (snd t1)) (snd (snd t1)) G_HOME_AZ G_HOME_EL g1 = Some g2"
      and m3: "moveToAzEl oor (fst t2) (fst (snd t2)) (snd (snd t2)) G_HOME_AZ G_HOME_EL g2 = Some g3"
      and g': "g' = g3\<lparr>user_message := ''Gimbal calibrated+''\<rparr>"
      by (auto simp add: overrideValue_def Let_def
          split: option.splits list.splits prod.splits Option.bind_splits)
    have "motor_in_limits i g1"
      by (rule mil_save_loop [OF mil_resetInitStep [OF assms(1)] l])
    then have "motor_in_limits i g2" by (rule mil_moveToAzEl [OF _ m2])
    then have "motor_in_limits i g3" by (rule mil_moveToAzEl [OF _ m3])
    then show ?thesis by (simp add: g' mil_user_message)
  qed
qed

lemma own_limit_edit:
  assumes "gimbal_found g"
  shows "overrideValue oor sc ticks ''G_Mot1Min'' v g =
           Some (True, (nv_put (g\<lparr>motor0 := (motor0 g)\<lparr>min_us := word_of_int v\<rparr>,
                       nv := (nv g)\<lparr>mot0min := word_of_int v\<rparr>\<rparr>))
              \<lparr>user_message := ''Servo 1 minimum saved in EEPROM+''\<rparr>)"
    and "overrideValue oor sc ticks ''G_Mot1Max'' v g =
           Some (True, (nv_put (g\<lparr>motor0 := (motor0 g)\<lparr>max_us := word_of_int v\<rparr>,
                       nv := (nv g)\<lparr>mot0max := word_of_int v\<rparr>\<rparr>))
              \<lparr>user_message := ''Servo 1 maximum saved in EEPROM+''\<rparr>)"
    and "overrideValue oor sc ticks ''G_Mot2Min'' v g =
           Some (True, (nv_put (g\<lparr>motor1 := (motor1 g)\<lparr>min_us := word_of_int v\<rparr>,
                       nv := (nv g)\<lparr>mot1min := word_of_int v\<rparr>\<rparr>))
              \<lparr>user_message := ''Servo 2 minimum saved in EEPROM+''\<rparr>)"
    and "overrideValue oor sc ticks ''G_Mot2Max'' v g =
           Some (True, (nv_put (g\<lparr>motor1 := (motor1 g)\<lparr>max_us := word_of_int v\<rparr>,
                       nv := (nv g)\<lparr>mot1max := word_of_int v\<rparr>\<rparr>))
              \<lparr>user_message := ''Servo 2 maximum saved in EEPROM+''\<rparr>)"
  using assms by (simp_all add: overrideValue_def)

text \<open>
  C9, as the code has it. A command to a motor with \<open>min \<le> max\<close> (hardware present)
  leaves \<open>min \<le> pos \<le> max\<close> for that motor. Once this holds for a motor, it is kept
  for that motor by every \<open>setMotorPosition\<close> call, every \<open>moveToAzEl\<close> tick (calibration
  step, seeking and recalibration), \<open>resetInitStep\<close>, \<open>installCalibration\<close> and every
  operator override other than the two that edit that motor's own limits. Such an edit
  (hardware present) stores the new limit and leaves \<open>pos\<close> as it is: the invariant is
  kept exactly when the new \<open>min\<close> is at most \<open>pos\<close>, or the new \<open>max\<close> at least \<open>pos\<close>.
\<close>

theorem pos_limits_invariant:
  "(gimbal_found g \<and> motor g motn = Some m \<and> min_us m \<le> max_us m \<longrightarrow>
      (\<exists>m'. motor (setMotorPosition motn newpos g) motn = Some m' \<and> pos_in_limits m'))
   \<and> (motor_in_limits i g \<longrightarrow>
        motor_in_limits i (setMotorPosition motn newpos g)
      \<and> (\<forall>g'. moveToAzEl oor now az el az_t el_t g = Some g' \<longrightarrow> motor_in_limits i g')
      \<and> (\<forall>r g'. name \<notin> limit_names i
            \<and> overrideValue oor sc ticks name v g = Some (r, g') \<longrightarrow> motor_in_limits i g')
      \<and> motor_in_limits i (resetInitStep g)
      \<and> motor_in_limits i (installCalibration stray g))
   \<and> (gimbal_found g \<and> pos_in_limits (motor0 g) \<longrightarrow>
        (\<forall>r g'. overrideValue oor sc ticks ''G_Mot1Min'' v g = Some (r, g') \<longrightarrow>
           (pos_in_limits (motor0 g') \<longleftrightarrow> word_of_int v \<le> pos (motor0 g)))
      \<and> (\<forall>r g'. overrideValue oor sc ticks ''G_Mot1Max'' v g = Some (r, g') \<longrightarrow>
           (pos_in_limits (motor0 g') \<longleftrightarrow> pos (motor0 g) \<le> word_of_int v)))
   \<and> (gimbal_found g \<and> pos_in_limits (motor1 g) \<longrightarrow>
        (\<forall>r g'. overrideValue oor sc ticks ''G_Mot2Min'' v g = Some (r, g') \<longrightarrow>
           (pos_in_limits (motor1 g') \<longleftrightarrow> word_of_int v \<le> pos (motor1 g)))
      \<and> (\<forall>r g'. overrideValue oor sc ticks ''G_Mot2Max'' v g = Some (r, g') \<longrightarrow>
           (pos_in_limits (motor1 g') \<longleftrightarrow> pos (motor1 g) \<le> word_of_int v)))"
proof (intro conjI impI allI)
  assume a: "gimbal_found g \<and> motor g motn = Some m \<and> min_us m \<le> max_us m"
  then have h: "gimbal_found g" "motor g motn = Some m" "min_us m \<le> max_us m" by simp_all
  show "\<exists>m'. motor (setMotorPosition motn newpos g) motn = Some m' \<and> pos_in_limits m'"
    unfolding setMotorPosition_motor [OF h(1,2)] using h(3)
    by (auto simp add: pos_in_limits_def)
next
  assume "motor_in_limits i g"
  then show "motor_in_limits i (setMotorPosition motn newpos g)" by (rule mil_setMotorPosition)
next
  fix g'
  assume "motor_in_limits i g" and "moveToAzEl oor now az el az_t el_t g = Some g'"
  then show "motor_in_limits i g'" by (rule mil_moveToAzEl)
next
  fix r g'
  assume "motor_in_limits i g"
    and "name \<notin> limit_names i \<and> overrideValue oor sc ticks name v g = Some (r, g')"
  then show "motor_in_limits i g'" using mil_overrideValue by blast
next
  assume "motor_in_limits i g"
  then show "motor_in_limits i (resetInitStep g)" by (rule mil_resetInitStep)
next
  assume "motor_in_limits i g"
  then show "motor_in_limits i (installCalibration stray g)" by (rule mil_installCalibration)
next
  fix r g'
  assume "gimbal_found g \<and> pos_in_limits (motor0 g)"
    and "overrideValue oor sc ticks ''G_Mot1Min'' v g = Some (r, g')"
  then show "pos_in_limits (motor0 g') \<longleftrightarrow> word_of_int v \<le> pos (motor0 g)"
    by (auto simp add: own_limit_edit pos_in_limits_def nv_put_def)
next
  fix r g'
  assume "gimbal_found g \<and> pos_in_limits (motor0 g)"
    and "overrideValue oor sc ticks ''G_Mot1Max'' v g = Some (r, g')"
  then show "pos_in_limits (motor0 g') \<longleftrightarrow> pos (motor0 g) \<le> word_of_int v"
    by (auto simp add: own_limit_edit pos_in_limits_def nv_put_def)
next
  fix r g'
  assume "gimbal_found g \<and> pos_in_limits (motor1 g)"
    and "overrideValue oor sc ticks ''G_Mot2Min'' v g = Some (r, g')"
  then show "pos_in_limits (motor1 g') \<longleftrightarrow> word_of_int v \<le> pos (motor1 g)"
    by (auto simp add: own_limit_edit pos_in_limits_def nv_put_def)
next
  fix r g'
  assume "gimbal_found g \<and> pos_in_limits (motor1 g)"
    and "overrideValue oor sc ticks ''G_Mot2Max'' v g = Some (r, g')"
  then show "pos_in_limits (motor1 g') \<longleftrightarrow> pos (motor1 g) \<le> word_of_int v"
    by (auto simp add: own_limit_edit pos_in_limits_def nv_put_def)
qed

theorem pos_limits_invariant_witness:
  "gimbal_found g_boot \<and> motor g_boot 0 = Some (motor0 g_boot)
   \<and> min_us (motor0 g_boot) \<le> max_us (motor0 g_boot)
   \<and> \<not> pos_in_limits (motor0 g_boot)
   \<and> (\<exists>m'. motor (setMotorPosition 0 1500 g_boot) 0 = Some m' \<and> pos_in_limits m')
   \<and> motor_in_limits 0 g_one \<and> \<not> motor_in_limits 1 g_one
   \<and> motor_in_limits 0 (setMotorPosition 0 2500 g_one)
   \<and> (\<exists>g'. moveToAzEl oor_demo 1000 (Fin 100) (Fin 20) (Fin 110) (Fin 50) g_one = Some g'
          \<and> motor_in_limits 0 g')
   \<and> ''G_Mot2Min'' \<notin> limit_names 0
   \<and> (\<exists>g'. overrideValue oor_demo True [] ''G_Mot2Min'' 1800 g_one = Some (True, g')
          \<and> motor_in_limits 0 g')
   \<and> gimbal_found g_one \<and> pos_in_limits (motor0 g_one)
   \<and> (\<exists>g'. overrideValue oor_demo True [] ''G_Mot1Min'' 1200 g_one = Some (True, g')
          \<and> pos_in_limits (motor0 g'))
   \<and> (\<exists>g'. overrideValue oor_demo True [] ''G_Mot1Max'' 1400 g_one = Some (True, g')
          \<and> \<not> pos_in_limits (motor0 g'))"
proof -
  have b: "gimbal_found g_boot \<and> motor g_boot 0 = Some (motor0 g_boot)
    \<and> min_us (motor0 g_boot) \<le> max_us (motor0 g_boot)"
    by (simp add: g_boot_def)
  have b': "\<not> pos_in_limits (motor0 g_boot)"
    by (simp add: g_boot_def pos_in_limits_def)
  have one: "motor0 g_one = (motor0 g_boot)\<lparr>del_pos := 1500, pos := 1500\<rparr>"
    "motor1 g_one = motor1 g_boot" "gimbal_found g_one"
    by (simp_all add: g_one_def g_boot_def setMotorPosition_def NMOTORS_def motor_update_def
        Let_def)
  have d: "motor_in_limits 0 g_one"
    by (simp add: motor_in_limits_iff one pos_in_limits_def g_boot_def)
  have d1: "\<not> motor_in_limits 1 g_one"
    by (simp add: motor_in_limits_iff one pos_in_limits_def g_boot_def)
  have f: "gimbal_found g_one \<and> pos_in_limits (motor0 g_one)"
    by (simp add: one pos_in_limits_def g_boot_def)
  have one': "prevfast_az g_one = Fin (- 1000)" "prevfast_el g_one = Fin (- 1000)"
    "last_update g_one = 0"
    by (simp_all add: g_one_def g_boot_def setMotorPosition_def NMOTORS_def motor_update_def
        Let_def)
  have t: "moveToAzEl oor_demo 1000 (Fin 100) (Fin 20) (Fin 110) (Fin 50) g_one \<noteq> None"
    by (simp add: moveToAzEl_def Let_def one' UPD_PERIOD_def fgt_def azDist_def fsub_def
        fge_def float_constants)
  then obtain g1 where
    g1: "moveToAzEl oor_demo 1000 (Fin 100) (Fin 20) (Fin 110) (Fin 50) g_one = Some g1"
    by blast
  have n: "''G_Mot2Min'' \<notin> limit_names 0" by (simp add: limit_names_def)
  obtain g2 where o2: "overrideValue oor_demo True [] ''G_Mot2Min'' 1800 g_one = Some (True, g2)"
    by (simp add: own_limit_edit one)
  obtain g3 where o3: "overrideValue oor_demo True [] ''G_Mot1Min'' 1200 g_one = Some (True, g3)"
    by (simp add: own_limit_edit one)
  obtain g4 where o4: "overrideValue oor_demo True [] ''G_Mot1Max'' 1400 g_one = Some (True, g4)"
    by (simp add: own_limit_edit one)
  have A: "\<exists>m'. motor (setMotorPosition 0 1500 g_boot) 0 = Some m' \<and> pos_in_limits m'"
    by (rule pos_limits_invariant [where g = g_boot and motn = 0 and m = "motor0 g_boot"
          and newpos = 1500, THEN conjunct1, THEN mp, OF b])
  note P = pos_limits_invariant [where g = g_one and i = 0 and motn = 0 and newpos = 2500
      and oor = oor_demo and now = 1000 and az = "Fin 100" and el = "Fin 20"
      and az_t = "Fin 110" and el_t = "Fin 50" and name = "''G_Mot2Min''" and sc = True
      and ticks = "[]" and v = 1800, THEN conjunct2, THEN conjunct1, THEN mp, OF d]
  have B: "motor_in_limits 0 (setMotorPosition 0 2500 g_one)"
    by (rule P [THEN conjunct1])
  have C: "motor_in_limits 0 g1"
    by (rule P [THEN conjunct2, THEN conjunct1, rule_format, OF g1])
  have D: "motor_in_limits 0 g2"
    by (rule P [THEN conjunct2, THEN conjunct2, THEN conjunct1, rule_format, OF conjI [OF n o2]])
  have E: "pos_in_limits (motor0 g3)"
    using pos_limits_invariant [where g = g_one and oor = oor_demo and sc = True
        and ticks = "[]" and v = 1200, THEN conjunct2, THEN conjunct2, THEN conjunct1,
        THEN mp, OF f, THEN conjunct1, rule_format, OF o3]
    by (simp add: one)
  have F: "\<not> pos_in_limits (motor0 g4)"
    using pos_limits_invariant [where g = g_one and oor = oor_demo and sc = True
        and ticks = "[]" and v = 1400, THEN conjunct2, THEN conjunct2, THEN conjunct1,
        THEN mp, OF f, THEN conjunct2, rule_format, OF o4]
    by (simp add: one)
  show ?thesis
    by (intro conjI exI [of _ g1] exI [of _ g2] exI [of _ g3] exI [of _ g4]
        b [THEN conjunct1] b [THEN conjunct2, THEN conjunct1] b [THEN conjunct2, THEN conjunct2]
        b' A d d1 B C D E F g1 n o2 o3 o4 f [THEN conjunct1] f [THEN conjunct2])
qed

text \<open>
  C9 as stated fails on an edit of a limit: with motor 0 commanded to 1500 within
  \<open>[1000, 2000]\<close>, the override \<open>G_Mot1Min = 1800\<close> is accepted, stores \<open>min = 1800\<close> and
  leaves \<open>pos = 1500\<close> below it.
\<close>

theorem limit_override_counterexample:
  "pos_in_limits (motor0 (setMotorPosition 0 1500 g_demo))
   \<and> pos_in_limits (motor1 (setMotorPosition 0 1500 g_demo))
   \<and> map_option (\<lambda>(r, g). (r, pos_in_limits (motor0 g), min_us (motor0 g), pos (motor0 g)))
        (overrideValue oor_demo True [] ''G_Mot1Min'' 1800 (setMotorPosition 0 1500 g_demo))
       = Some (True, False, 1800, 1500)"
  by (simp add: overrideValue_def setMotorPosition_def NMOTORS_def motor_update_def Let_def
      g_demo_def m_demo_def pos_in_limits_def nv_put_def)

end
